theory Spec2Isabelle
  imports Main "HOL-Library.Word"
begin

unbundle bit_operations_syntax

section \<open>C types and error numbers\<close>

text \<open>
  The board file is C for a 32-bit \<open>int\<close>. A C \<open>int\<close> is a \<open>32 word\<close> read with
  \<open>sint\<close> (two's complement), \<open>unsigned\<close> and \<open>u32\<close> are a \<open>32 word\<close> read with \<open>unat\<close>,
  \<open>u8\<close> is \<open>8 word\<close>. The conversion from \<open>int\<close> to \<open>unsigned\<close> that C performs when the
  two meet in an addition keeps the bit pattern, so it is the identity on the word.
  A pointer is an \<open>option\<close>: \<open>None\<close> is \<open>NULL\<close>.
\<close>

type_synonym c_int = "32 word"
type_synonym u32 = "32 word"
type_synonym u16 = "16 word"
type_synonym u8 = "8 word"

definition ENODEV :: c_int where "ENODEV = 19"
definition EBUSY :: c_int where "EBUSY = 16"
definition EINVAL :: c_int where "EINVAL = 22"

section \<open>The pin map: static data\<close>

subsection \<open>Disk activity LEDs on the chipset GPIO lines\<close>

datatype leds_gpio_defstate =
  LEDS_GPIO_DEFSTATE_OFF | LEDS_GPIO_DEFSTATE_ON | LEDS_GPIO_DEFSTATE_KEEP

text \<open>\<open>struct gpio_led\<close>, with the fields the board file sets.\<close>

record gpio_led =
  gl_name :: "string option"
  gl_default_trigger :: "string option"
  gl_gpio :: u32
  gl_active_low :: bool
  gl_default_state :: leds_gpio_defstate

definition n5550_def_trigger :: string where
  "n5550_def_trigger = ''blkdev''"

text \<open>The array as the initialiser leaves it: \<open>gpio\<close> is not initialised, hence 0.\<close>

definition n5550_ich_gpio_leds_init :: "gpio_led list" where
  "n5550_ich_gpio_leds_init =
    [ \<lparr>gl_name = Some ''n5550:green:disk-act-0'', gl_default_trigger = Some n5550_def_trigger,
       gl_gpio = 0, gl_active_low = True, gl_default_state = LEDS_GPIO_DEFSTATE_OFF\<rparr>,
      \<lparr>gl_name = Some ''n5550:green:disk-act-1'', gl_default_trigger = Some n5550_def_trigger,
       gl_gpio = 0, gl_active_low = True, gl_default_state = LEDS_GPIO_DEFSTATE_OFF\<rparr>,
      \<lparr>gl_name = Some ''n5550:green:disk-act-2'', gl_default_trigger = Some n5550_def_trigger,
       gl_gpio = 0, gl_active_low = True, gl_default_state = LEDS_GPIO_DEFSTATE_OFF\<rparr>,
      \<lparr>gl_name = Some ''n5550:green:disk-act-3'', gl_default_trigger = Some n5550_def_trigger,
       gl_gpio = 0, gl_active_low = True, gl_default_state = LEDS_GPIO_DEFSTATE_OFF\<rparr>,
      \<lparr>gl_name = Some ''n5550:green:disk-act-4'', gl_default_trigger = Some n5550_def_trigger,
       gl_gpio = 0, gl_active_low = True, gl_default_state = LEDS_GPIO_DEFSTATE_OFF\<rparr> ]"

text \<open>GPIO numbers of LEDS are not contiguous.\<close>

definition n5550_ich_gpio_led_offsets :: "u32 list" where
  "n5550_ich_gpio_led_offsets = [0, 2, 3, 4, 5]"

subsection \<open>The two PCA9532 dimmers\<close>

text \<open>
  \<open>enum pca9532_type\<close> and \<open>enum pca9532_state\<close> come from the kernel header
  \<open>linux/leds-pca9532.h\<close>; the first enumerator of each is the value 0 that an omitted
  field of an initialiser receives. A slot is \<open>struct pca9532_led\<close> with the fields the
  board file sets; an omitted \<open>name\<close> is \<open>NULL\<close>.
\<close>

datatype pca9532_type =
  PCA9532_TYPE_NONE | PCA9532_TYPE_LED | PCA9532_TYPE_N2100_BEEP | PCA9532_TYPE_GPIO
  | PCA9532_LED_TIMER2

datatype pca9532_state =
  PCA9532_OFF | PCA9532_ON | PCA9532_PWM0 | PCA9532_PWM1 | PCA9532_KEEP

record pca9532_led =
  pl_name :: "string option"
  pl_type :: pca9532_type
  pl_state :: pca9532_state

record pca9532_platform_data =
  pd_leds :: "pca9532_led list"
  pd_pwm :: "u8 list"
  pd_psc :: "u8 list"

abbreviation slot_none :: pca9532_led where
  "slot_none \<equiv> \<lparr>pl_name = None, pl_type = PCA9532_TYPE_NONE, pl_state = PCA9532_OFF\<rparr>"

definition n5550_pca9532_0_pdata :: pca9532_platform_data where
  "n5550_pca9532_0_pdata =
    \<lparr>pd_leds =
      [ \<lparr>pl_name = Some ''n5550:red:disk-stat-0'', pl_type = PCA9532_TYPE_LED, pl_state = PCA9532_OFF\<rparr>,
        \<lparr>pl_name = Some ''n5550:red:disk-stat-1'', pl_type = PCA9532_TYPE_LED, pl_state = PCA9532_OFF\<rparr>,
        \<lparr>pl_name = Some ''n5550:red:disk-stat-2'', pl_type = PCA9532_TYPE_LED, pl_state = PCA9532_OFF\<rparr>,
        \<lparr>pl_name = Some ''n5550:red:disk-stat-3'', pl_type = PCA9532_TYPE_LED, pl_state = PCA9532_OFF\<rparr>,
        \<lparr>pl_name = Some ''n5550:red:disk-stat-4'', pl_type = PCA9532_TYPE_LED, pl_state = PCA9532_OFF\<rparr>,
        slot_none, slot_none, slot_none, slot_none, slot_none, slot_none,
        slot_none, slot_none, slot_none, slot_none, slot_none ],
     pd_pwm = [0, 0],
     pd_psc = [0, 0]\<rparr>"

abbreviation slot_gpio :: pca9532_led where
  "slot_gpio \<equiv> \<lparr>pl_name = None, pl_type = PCA9532_TYPE_GPIO, pl_state = PCA9532_OFF\<rparr>"

definition n5550_pca9532_1_pdata :: pca9532_platform_data where
  "n5550_pca9532_1_pdata =
    \<lparr>pd_leds =
      [ slot_gpio, slot_gpio, slot_gpio, slot_gpio,
        slot_none, slot_none, slot_none, slot_none, slot_none,
        \<lparr>pl_name = Some ''n5550:orange:busy'', pl_type = PCA9532_TYPE_LED, pl_state = PCA9532_OFF\<rparr>,
        \<lparr>pl_name = Some ''n5550:blue:usb'', pl_type = PCA9532_TYPE_LED, pl_state = PCA9532_OFF\<rparr>,
        slot_none,
        \<lparr>pl_name = Some ''n5550:red:fail'', pl_type = PCA9532_TYPE_LED, pl_state = PCA9532_OFF\<rparr>,
        slot_none, slot_none,
        slot_gpio ],
     pd_pwm = [0, 0],
     pd_psc = [0, 0]\<rparr>"

text \<open>\<open>I2C_BOARD_INFO(type, addr)\<close> sets the device type and the bus address.\<close>

record i2c_board_info =
  bi_type :: string
  bi_addr :: u16
  bi_platform_data :: pca9532_platform_data

definition n5550_pca9532_0_info :: i2c_board_info where
  "n5550_pca9532_0_info =
    \<lparr>bi_type = ''pca9532'', bi_addr = 0x64, bi_platform_data = n5550_pca9532_0_pdata\<rparr>"

definition n5550_pca9532_1_info :: i2c_board_info where
  "n5550_pca9532_1_info =
    \<lparr>bi_type = ''pca9532'', bi_addr = 0x62, bi_platform_data = n5550_pca9532_1_pdata\<rparr>"

section \<open>The kernel as the board file sees it\<close>

text \<open>
  The GPIO, PCI, I2C, module and platform-device subsystems are collaborators that the
  board file calls. They are modelled as one state that every call reads or updates,
  together with a chronological trace with one event per call into the PCI, port I/O,
  module, I2C and platform-device interfaces, carrying the arguments and, where the
  board file looks at it, the result. The two pure accessors, \<open>gpiochip_find\<close> and
  \<open>pci_get_drvdata\<close>, leave no event. Kernel log output (\<open>pr_warn\<close>, \<open>pr_debug\<close>)
  is not part of the state.
\<close>

record gpio_chip =
  gc_label :: "string option"
  gc_base :: c_int

record i2c_adapter =
  adap_nr :: nat
  adap_owner :: "nat option"

text \<open>A PCI function: its identity, its driver data and its configuration space (bytes).\<close>

record pci_dev =
  pci_vendor :: u16
  pci_device :: u16
  pci_drvdata :: "i2c_adapter option"
  pci_config :: "nat \<Rightarrow> u8"

datatype event =
    Pci_get_device u16 u16 "nat option"
  | Pci_dev_put nat
  | Pci_read_config_dword nat nat
  | Pci_write_config_byte nat nat u8
  | Port_inl u32
  | Port_outl u32 u32
  | Try_module_get "nat option" bool
  | Module_put "nat option"
  | I2c_new_client_device nat u16 "nat option"
  | I2c_unregister_device "nat option"
  | Platform_device_register "u32 list" c_int
  | Platform_device_unregister

text \<open>
  The state. The first block is the kernel: the registered GPIO controllers in
  registration order, the PCI functions (a \<open>struct pci_dev *\<close> is an index into the
  list), the I/O port space, for each module whether a reference can be taken, the
  pointer that registering a client at an address of an adapter yields (\<open>NULL\<close>,
  an error pointer or a client), the value that registering the LED platform device returns, the reference
  counts, the registered I2C clients, and whether the LED platform device is registered.
  The second block is the board file's own mutable globals.
\<close>

record world =
  gpio_chips :: "gpio_chip list"
  pci_devices :: "pci_dev list"
  io_ports :: "u32 \<Rightarrow> u32"
  module_live :: "nat \<Rightarrow> bool"
  i2c_probe :: "nat \<Rightarrow> u16 \<Rightarrow> nat option"
  platform_register_ret :: c_int
  pci_refs :: "nat \<Rightarrow> int"
  module_refs :: "nat \<Rightarrow> int"
  i2c_clients :: "nat list"
  led_pdev_registered :: bool
  trace :: "event list"
  n5550_ich_gpio_leds :: "gpio_led list"
  n5550_pca9532_0_client :: "nat option"
  n5550_pca9532_1_client :: "nat option"

definition log_event :: "event \<Rightarrow> world \<Rightarrow> world" where
  "log_event e w = w\<lparr>trace := trace w @ [e]\<rparr>"

subsection \<open>GPIO controllers\<close>

text \<open>\<open>gpiochip_find\<close>: the first registered controller that the match function accepts.\<close>

definition gpiochip_find :: "(gpio_chip \<Rightarrow> c_int) \<Rightarrow> world \<Rightarrow> gpio_chip option" where
  "gpiochip_find match w = find (\<lambda>gc. match gc \<noteq> 0) (gpio_chips w)"

text \<open>\<open>strcmp\<close>: 0 on equal strings, otherwise the sign of the first difference.\<close>

fun strcmp :: "string \<Rightarrow> string \<Rightarrow> c_int" where
  "strcmp [] [] = 0"
| "strcmp [] (y # ys) = - 1"
| "strcmp (x # xs) [] = 1"
| "strcmp (x # xs) (y # ys) =
     (if x = y then strcmp xs ys
      else if (of_char x :: nat) < of_char y then - 1 else 1)"

subsection \<open>PCI\<close>

fun pci_lookup :: "u16 \<Rightarrow> u16 \<Rightarrow> pci_dev list \<Rightarrow> nat option" where
  "pci_lookup v d [] = None"
| "pci_lookup v d (x # xs) =
     (if pci_vendor x = v \<and> pci_device x = d then Some 0
      else map_option Suc (pci_lookup v d xs))"

text \<open>\<open>pci_get_device(vendor, device, NULL)\<close>: the first function with that identity,
  with its reference count raised.\<close>

definition pci_get_device :: "u16 \<Rightarrow> u16 \<Rightarrow> world \<Rightarrow> nat option \<times> world" where
  "pci_get_device v d w =
     (case pci_lookup v d (pci_devices w) of
        None \<Rightarrow> (None, log_event (Pci_get_device v d None) w)
      | Some i \<Rightarrow>
          (Some i, log_event (Pci_get_device v d (Some i))
                     (w\<lparr>pci_refs := (pci_refs w)(i := pci_refs w i + 1)\<rparr>)))"

definition pci_dev_put :: "nat \<Rightarrow> world \<Rightarrow> world" where
  "pci_dev_put dev w =
     log_event (Pci_dev_put dev) (w\<lparr>pci_refs := (pci_refs w)(dev := pci_refs w dev - 1)\<rparr>)"

definition pci_get_drvdata :: "nat \<Rightarrow> world \<Rightarrow> i2c_adapter option" where
  "pci_get_drvdata dev w = pci_drvdata (pci_devices w ! dev)"

text \<open>Configuration space is little-endian.\<close>

definition config_dword :: "(nat \<Rightarrow> u8) \<Rightarrow> nat \<Rightarrow> u32" where
  "config_dword c wh =
     ucast (c wh) OR push_bit 8 (ucast (c (wh + 1)))
       OR push_bit 16 (ucast (c (wh + 2))) OR push_bit 24 (ucast (c (wh + 3)))"

definition pci_read_config_dword :: "nat \<Rightarrow> nat \<Rightarrow> world \<Rightarrow> u32 \<times> world" where
  "pci_read_config_dword dev wh w =
     (config_dword (pci_config (pci_devices w ! dev)) wh,
      log_event (Pci_read_config_dword dev wh) w)"

definition pci_write_config_byte :: "nat \<Rightarrow> nat \<Rightarrow> u8 \<Rightarrow> world \<Rightarrow> world" where
  "pci_write_config_byte dev wh val w =
     log_event (Pci_write_config_byte dev wh val)
       (w\<lparr>pci_devices := (pci_devices w)
            [dev := (pci_devices w ! dev)
               \<lparr>pci_config := (pci_config (pci_devices w ! dev))(wh := val)\<rparr>]\<rparr>)"

subsection \<open>Port-mapped I/O\<close>

text \<open>A port is a 32-bit register that holds what was last written to it.\<close>

definition inl :: "u32 \<Rightarrow> world \<Rightarrow> u32 \<times> world" where
  "inl port w = (io_ports w port, log_event (Port_inl port) w)"

definition outl :: "u32 \<Rightarrow> u32 \<Rightarrow> world \<Rightarrow> world" where
  "outl val port w =
     log_event (Port_outl val port) (w\<lparr>io_ports := (io_ports w)(port := val)\<rparr>)"

subsection \<open>Module references\<close>

text \<open>A \<open>NULL\<close> owner is built-in code: taking a reference on it always succeeds.\<close>

definition try_module_get :: "nat option \<Rightarrow> world \<Rightarrow> bool \<times> world" where
  "try_module_get owner w =
     (case owner of
        None \<Rightarrow> (True, log_event (Try_module_get None True) w)
      | Some m \<Rightarrow>
          if module_live w m
          then (True, log_event (Try_module_get owner True)
                        (w\<lparr>module_refs := (module_refs w)(m := module_refs w m + 1)\<rparr>))
          else (False, log_event (Try_module_get owner False) w))"

definition module_put :: "nat option \<Rightarrow> world \<Rightarrow> world" where
  "module_put owner w =
     (case owner of
        None \<Rightarrow> log_event (Module_put None) w
      | Some m \<Rightarrow>
          log_event (Module_put owner)
            (w\<lparr>module_refs := (module_refs w)(m := module_refs w m - 1)\<rparr>))"

subsection \<open>I2C clients and the platform device\<close>

text \<open>
  Error pointers (\<open>linux/err.h\<close>): a pointer is an address of the 64-bit machine, and
  the last \<open>MAX_ERRNO\<close> addresses are not objects but encode a negative error number.
  \<open>ERR_PTR\<close> casts an error number to a pointer.
\<close>

definition MAX_ERRNO :: nat where
  "MAX_ERRNO = 4095"

definition IS_ERR_VALUE :: "nat \<Rightarrow> bool" where
  "IS_ERR_VALUE x = (2 ^ 64 - MAX_ERRNO \<le> x)"

definition ERR_PTR :: "c_int \<Rightarrow> nat option" where
  "ERR_PTR e = (let a = nat (sint e mod 2 ^ 64) in if a = 0 then None else Some a)"

text \<open>
  Registering a client yields the pointer that the kernel returns for that adapter and
  address. The kernel reports a failed registration with an error pointer; the state
  may also yield \<open>NULL\<close>, which is what the board file tests for. Only a pointer
  that is neither joins the registered clients. Unregistering removes a client;
  unregistering \<open>NULL\<close> or an error pointer does nothing.
\<close>

definition i2c_new_client_device ::
  "i2c_adapter \<Rightarrow> i2c_board_info \<Rightarrow> world \<Rightarrow> nat option \<times> world" where
  "i2c_new_client_device adapter info w =
     (let r = i2c_probe w (adap_nr adapter) (bi_addr info);
          w1 = (case r of
                  None \<Rightarrow> w
                | Some c \<Rightarrow>
                    if IS_ERR_VALUE c then w else w\<lparr>i2c_clients := c # i2c_clients w\<rparr>)
      in (r, log_event (I2c_new_client_device (adap_nr adapter) (bi_addr info) r) w1))"

definition i2c_unregister_device :: "nat option \<Rightarrow> world \<Rightarrow> world" where
  "i2c_unregister_device client w =
     log_event (I2c_unregister_device client)
       (case client of
          None \<Rightarrow> w
        | Some c \<Rightarrow>
            if IS_ERR_VALUE c then w else w\<lparr>i2c_clients := remove1 c (i2c_clients w)\<rparr>)"

text \<open>The one platform device is \<open>n5550_ich_gpio_led_pdev\<close> (\<open>leds-gpio\<close>), whose
  platform data points to the LED array; the event records the pin numbers that the
  array holds at the moment of registration. Registration succeeded when it returns 0.\<close>

definition platform_device_register :: "world \<Rightarrow> c_int \<times> world" where
  "platform_device_register w =
     (let r = platform_register_ret w
      in (r, log_event (Platform_device_register (map gl_gpio (n5550_ich_gpio_leds w)) r)
               (if r = 0 then w\<lparr>led_pdev_registered := True\<rparr> else w)))"

definition platform_device_unregister :: "world \<Rightarrow> world" where
  "platform_device_unregister w =
     log_event Platform_device_unregister (w\<lparr>led_pdev_registered := False\<rparr>)"

section \<open>The board file\<close>

subsection \<open>Controller locator\<close>

definition n5550_match_ich_gpiochip :: "gpio_chip \<Rightarrow> c_int" where
  "n5550_match_ich_gpiochip gc =
     (case gc_label gc of
        None \<Rightarrow> 0
      | Some l \<Rightarrow> if strcmp l ''gpio_ich'' = 0 then 1 else 0)"

definition n5550_get_ich_gpiobase :: "world \<Rightarrow> c_int" where
  "n5550_get_ich_gpiobase w =
     (case gpiochip_find n5550_match_ich_gpiochip w of
        None \<Rightarrow> - ENODEV
      | Some gc \<Rightarrow> if sint (gc_base gc) < 0 then - EINVAL else gc_base gc)"

subsection \<open>LED device bring-up\<close>

text \<open>\<open>ARRAY_SIZE(n5550_ich_gpio_leds)\<close>.\<close>

definition N5550_NUM_LEDS :: nat where
  "N5550_NUM_LEDS = 5"

text \<open>The \<open>for\<close> loop of \<open>n5550_ich_gpio_led_setup\<close>, from index \<open>i\<close> on.\<close>

function led_loop :: "nat \<Rightarrow> c_int \<Rightarrow> gpio_led list \<Rightarrow> gpio_led list" where
  "led_loop i base leds =
     (if i < N5550_NUM_LEDS
      then led_loop (i + 1) base
             (leds[i := (leds ! i)\<lparr>gl_gpio := base + n5550_ich_gpio_led_offsets ! i\<rparr>])
      else leds)"
  by pat_completeness auto
termination
  by (relation "measure (\<lambda>(i, base, leds). N5550_NUM_LEDS - i)") auto

declare led_loop.simps [simp del]

definition n5550_ich_gpio_led_setup :: "world \<Rightarrow> c_int \<times> world" where
  "n5550_ich_gpio_led_setup w =
     (let base = n5550_get_ich_gpiobase w in
      if sint base < 0 then (base, w)
      else platform_device_register
             (w\<lparr>n5550_ich_gpio_leds := led_loop 0 base (n5550_ich_gpio_leds w)\<rparr>))"

definition n5550_ich_gpio_led_cleanup :: "world \<Rightarrow> world" where
  "n5550_ich_gpio_led_cleanup w = platform_device_unregister w"

subsection \<open>GPIO enable fixup\<close>

text \<open>\<open>PCI_VENDOR_ID_INTEL\<close> is the kernel's constant for Intel.\<close>

definition PCI_VENDOR_ID_INTEL :: u16 where "PCI_VENDOR_ID_INTEL = 0x8086"
definition N5550_ICH_PCI_VENDOR :: u16 where "N5550_ICH_PCI_VENDOR = PCI_VENDOR_ID_INTEL"
definition N5550_ICH_LPC_PCI_DEV :: u16 where "N5550_ICH_LPC_PCI_DEV = 0x3a16"
definition N5550_ICH_I2C_PCI_DEV :: u16 where "N5550_ICH_I2C_PCI_DEV = 0x3a30"

definition N5550_ICH_PCI_GPIO_BASE :: nat where "N5550_ICH_PCI_GPIO_BASE = 0x48"
definition N5550_ICH_PCI_GPIO_CTRL :: nat where "N5550_ICH_PCI_GPIO_CTRL = 0x4c"

definition N5550_ICH_GPIO_USE_SEL_0 :: u32 where "N5550_ICH_GPIO_USE_SEL_0 = 0x00"
definition N5550_ICH_GPIO_USE_SEL_1 :: u32 where "N5550_ICH_GPIO_USE_SEL_1 = 0x30"
definition N5550_ICH_GPIO_USE_SEL_2 :: u32 where "N5550_ICH_GPIO_USE_SEL_2 = 0x40"

definition N5550_ICH_GPIO_PINS_0 :: u32 where
  "N5550_ICH_GPIO_PINS_0 =
     push_bit 0 1 OR push_bit 2 1 OR push_bit 3 1 OR push_bit 4 1 OR push_bit 5 1
       OR push_bit 9 1 OR push_bit 28 1"

definition N5550_ICH_GPIO_PINS_1 :: u32 where
  "N5550_ICH_GPIO_PINS_1 = push_bit (34 - 32) 1"

definition n5550_ich_gpio_setup :: "world \<Rightarrow> c_int \<times> world" where
  "n5550_ich_gpio_setup w0 =
     (let (dev, w1) = pci_get_device N5550_ICH_PCI_VENDOR N5550_ICH_LPC_PCI_DEV w0 in
      case dev of
        None \<Rightarrow> (- ENODEV, w1)
      | Some dev \<Rightarrow>
          (let (v, w2) = pci_read_config_dword dev N5550_ICH_PCI_GPIO_BASE w1;
               gpio_io_base = v AND 0x0000ff80;
               w3 = pci_write_config_byte dev N5550_ICH_PCI_GPIO_CTRL 0x10 w2;
               (p0, w4) = inl (gpio_io_base + N5550_ICH_GPIO_USE_SEL_0) w3;
               w5 = outl (p0 OR N5550_ICH_GPIO_PINS_0)
                      (gpio_io_base + N5550_ICH_GPIO_USE_SEL_0) w4;
               (p1, w6) = inl (gpio_io_base + N5550_ICH_GPIO_USE_SEL_1) w5;
               w7 = outl (p1 OR N5550_ICH_GPIO_PINS_1)
                      (gpio_io_base + N5550_ICH_GPIO_USE_SEL_1) w6
           in (0, pci_dev_put dev w7)))"

subsection \<open>Satellite chip bring-up\<close>

definition n5550_pca9532_setup :: "world \<Rightarrow> c_int \<times> world" where
  "n5550_pca9532_setup w0 =
     (let (dev, w1) = pci_get_device N5550_ICH_PCI_VENDOR N5550_ICH_I2C_PCI_DEV w0 in
      case dev of
        None \<Rightarrow> (- ENODEV, w1)
      | Some dev \<Rightarrow>
          (case pci_get_drvdata dev w1 of
             None \<Rightarrow> (- ENODEV, pci_dev_put dev w1)
           | Some adapter \<Rightarrow>
               (let (got, w2) = try_module_get (adap_owner adapter) w1 in
                if \<not> got then (- EBUSY, pci_dev_put dev w2)
                else
                  (let (c0, w3) = i2c_new_client_device adapter n5550_pca9532_0_info w2;
                       w4 = w3\<lparr>n5550_pca9532_0_client := c0\<rparr>
                   in
                   if n5550_pca9532_0_client w4 = None
                   then (let w5 = module_put (adap_owner adapter) w4;
                             w6 = pci_dev_put dev w5
                         in (- ENODEV, w6))
                   else
                     (let (c1, w5) = i2c_new_client_device adapter n5550_pca9532_1_info w4;
                          w6 = w5\<lparr>n5550_pca9532_1_client := c1\<rparr>
                      in
                      if n5550_pca9532_1_client w6 = None
                      then (let w7 = i2c_unregister_device (n5550_pca9532_0_client w6) w6;
                                w8 = module_put (adap_owner adapter) w7;
                                w9 = pci_dev_put dev w8
                            in (- ENODEV, w9))
                      else (let w7 = module_put (adap_owner adapter) w6;
                                w8 = pci_dev_put dev w7
                            in (0, w8)))))))"

definition n5550_pca9532_cleanup :: "world \<Rightarrow> world" where
  "n5550_pca9532_cleanup w0 =
     (let w1 = i2c_unregister_device (n5550_pca9532_0_client w0) w0;
          w2 = i2c_unregister_device (n5550_pca9532_1_client w1) w1
      in w2)"

subsection \<open>Lifecycle orchestrator\<close>

definition n5550_board_init :: "world \<Rightarrow> c_int \<times> world" where
  "n5550_board_init w0 =
     (let (ret, w1) = n5550_pca9532_setup w0 in
      if ret \<noteq> 0 then (ret, w1)
      else
        (let (ret, w2) = n5550_ich_gpio_setup w1 in
         if ret \<noteq> 0 then (ret, n5550_pca9532_cleanup w2)
         else
           (let (ret, w3) = n5550_ich_gpio_led_setup w2 in
            if ret \<noteq> 0 then (ret, n5550_pca9532_cleanup w3)
            else (0, w3))))"

definition n5550_board_exit :: "world \<Rightarrow> world" where
  "n5550_board_exit w0 =
     (let w1 = n5550_pca9532_cleanup w0;
          w2 = n5550_ich_gpio_led_cleanup w1
      in w2)"

section \<open>Observing a run\<close>

text \<open>The events that a call appended to the trace.\<close>

definition new_events :: "world \<Rightarrow> world \<Rightarrow> event list" where
  "new_events w w' = drop (length (trace w)) (trace w')"

text \<open>Projections of a trace: the PCI functions obtained and released, the attempts to
  take a module reference, the references taken and released, and the I2C registration
  attempts, each in chronological order.\<close>

fun pci_gets :: "event list \<Rightarrow> nat list" where
  "pci_gets [] = []"
| "pci_gets (Pci_get_device v d (Some i) # es) = i # pci_gets es"
| "pci_gets (e # es) = pci_gets es"

fun pci_puts :: "event list \<Rightarrow> nat list" where
  "pci_puts [] = []"
| "pci_puts (Pci_dev_put i # es) = i # pci_puts es"
| "pci_puts (e # es) = pci_puts es"

fun module_tries :: "event list \<Rightarrow> (nat option \<times> bool) list" where
  "module_tries [] = []"
| "module_tries (Try_module_get m ok # es) = (m, ok) # module_tries es"
| "module_tries (e # es) = module_tries es"

fun module_gets :: "event list \<Rightarrow> nat option list" where
  "module_gets [] = []"
| "module_gets (Try_module_get m True # es) = m # module_gets es"
| "module_gets (e # es) = module_gets es"

fun module_puts :: "event list \<Rightarrow> nat option list" where
  "module_puts [] = []"
| "module_puts (Module_put m # es) = m # module_puts es"
| "module_puts (e # es) = module_puts es"

fun i2c_news :: "event list \<Rightarrow> (u16 \<times> nat option) list" where
  "i2c_news [] = []"
| "i2c_news (I2c_new_client_device nr a r # es) = (a, r) # i2c_news es"
| "i2c_news (e # es) = i2c_news es"

text \<open>\<open>a\<close> occurs in the trace and \<open>b\<close> occurs after the first \<open>a\<close>.\<close>

definition happens_before :: "event \<Rightarrow> event \<Rightarrow> event list \<Rightarrow> bool" where
  "happens_before a b es = (b \<in> set (drop 1 (dropWhile (\<lambda>e. e \<noteq> a) es)))"

section \<open>Example boards\<close>

text \<open>The LPC function with its GPIO base register holding \<open>0x0481\<close> (I/O base
  \<open>0x0480\<close>), and the SMBus function with an adapter owned by module 1.\<close>

definition ich_lpc :: pci_dev where
  "ich_lpc =
     \<lparr>pci_vendor = 0x8086, pci_device = 0x3a16, pci_drvdata = None,
      pci_config = (\<lambda>_. 0)(0x48 := 0x81, 0x49 := 0x04, 0x4c := 0x03)\<rparr>"

definition ich_smbus :: pci_dev where
  "ich_smbus =
     \<lparr>pci_vendor = 0x8086, pci_device = 0x3a30,
      pci_drvdata = Some \<lparr>adap_nr = 0, adap_owner = Some 1\<rparr>,
      pci_config = (\<lambda>_. 0)\<rparr>"

text \<open>A board on which every step succeeds: the chipset GPIO controller has base 100.\<close>

definition example_board :: world where
  "example_board =
     \<lparr>gpio_chips = [\<lparr>gc_label = Some ''other'', gc_base = 7\<rparr>,
                     \<lparr>gc_label = None, gc_base = 3\<rparr>,
                     \<lparr>gc_label = Some ''gpio_ich'', gc_base = 100\<rparr>,
                     \<lparr>gc_label = Some ''gpio_ich'', gc_base = 200\<rparr>],
      pci_devices = [ich_lpc, ich_smbus],
      io_ports = (\<lambda>_. 0),
      module_live = (\<lambda>_. True),
      i2c_probe = (\<lambda>nr addr. if addr = 0x64 then Some 10
                              else if addr = 0x62 then Some 11 else None),
      platform_register_ret = 0,
      pci_refs = (\<lambda>_. 1),
      module_refs = (\<lambda>_. 0),
      i2c_clients = [],
      led_pdev_registered = False,
      trace = [],
      n5550_ich_gpio_leds = n5550_ich_gpio_leds_init,
      n5550_pca9532_0_client = None,
      n5550_pca9532_1_client = None\<rparr>"

text \<open>Variations: no controller labelled \<open>gpio_ich\<close>; a matching controller with base -1;
  no LPC function; the second chip cannot be registered; the adapter's module is going away.\<close>

definition board_without_gpio_chip :: world where
  "board_without_gpio_chip =
     example_board\<lparr>gpio_chips := [\<lparr>gc_label = Some ''other'', gc_base = 7\<rparr>,
                                    \<lparr>gc_label = None, gc_base = 3\<rparr>]\<rparr>"

definition board_with_bad_base :: world where
  "board_with_bad_base =
     example_board\<lparr>gpio_chips := [\<lparr>gc_label = None, gc_base = 3\<rparr>,
                                    \<lparr>gc_label = Some ''gpio_ich'', gc_base = - 1\<rparr>]\<rparr>"

definition board_without_lpc :: world where
  "board_without_lpc = example_board\<lparr>pci_devices := [ich_smbus]\<rparr>"

definition board_second_chip_fails :: world where
  "board_second_chip_fails =
     example_board\<lparr>i2c_probe := (\<lambda>nr addr. if addr = 0x64 then Some 10 else None)\<rparr>"

text \<open>The second chip cannot be registered and the kernel says so with
  \<open>ERR_PTR(-EBUSY)\<close>.\<close>

definition board_second_chip_err_ptr :: world where
  "board_second_chip_err_ptr =
     example_board\<lparr>i2c_probe := (\<lambda>nr addr. if addr = 0x64 then Some 10
                                              else ERR_PTR (- EBUSY))\<rparr>"

definition board_adapter_busy :: world where
  "board_adapter_busy = example_board\<lparr>module_live := (\<lambda>_. False)\<rparr>"

text \<open>Firmware has already given pin 6 of the first ownership register to GPIO.\<close>

definition board_with_firmware_pins :: world where
  "board_with_firmware_pins = example_board\<lparr>io_ports := (\<lambda>_. 0)(0x480 := 0x40)\<rparr>"

section \<open>Auxiliary facts\<close>

lemmas kernel_defs = pci_get_device_def pci_dev_put_def pci_get_drvdata_def
  pci_read_config_dword_def pci_write_config_byte_def inl_def outl_def
  try_module_get_def module_put_def i2c_new_client_device_def i2c_unregister_device_def
  platform_device_register_def platform_device_unregister_def log_event_def

lemmas err_defs = IS_ERR_VALUE_def MAX_ERRNO_def ERR_PTR_def

lemmas const_defs = N5550_ICH_PCI_VENDOR_def PCI_VENDOR_ID_INTEL_def N5550_ICH_I2C_PCI_DEV_def
  N5550_ICH_LPC_PCI_DEV_def N5550_ICH_PCI_GPIO_BASE_def N5550_ICH_PCI_GPIO_CTRL_def
  N5550_ICH_GPIO_USE_SEL_0_def N5550_ICH_GPIO_USE_SEL_1_def

lemmas board_defs = n5550_board_init_def n5550_board_exit_def n5550_pca9532_setup_def
  n5550_pca9532_cleanup_def n5550_ich_gpio_setup_def n5550_ich_gpio_led_setup_def
  n5550_ich_gpio_led_cleanup_def n5550_get_ich_gpiobase_def gpiochip_find_def
  n5550_match_ich_gpiochip_def n5550_pca9532_0_info_def n5550_pca9532_1_info_def
  ENODEV_def EBUSY_def EINVAL_def

lemma example_pointers: "\<not> IS_ERR_VALUE 10" "\<not> IS_ERR_VALUE 11"
  by (simp_all add: err_defs)

lemmas example_defs = example_board_def ich_lpc_def ich_smbus_def example_pointers
  board_without_gpio_chip_def board_with_bad_base_def board_without_lpc_def
  board_second_chip_fails_def board_adapter_busy_def board_with_firmware_pins_def
  board_second_chip_err_ptr_def

subsection \<open>Strings and lookups\<close>

lemma strcmp_eq_0: "strcmp a b = 0 \<longleftrightarrow> a = b"
  by (induction a b rule: strcmp.induct) auto

lemma match_ich_gpiochip_iff:
  "n5550_match_ich_gpiochip gc \<noteq> 0 \<longleftrightarrow> gc_label gc = Some ''gpio_ich''"
  by (simp add: n5550_match_ich_gpiochip_def strcmp_eq_0 split: option.splits)

lemma pci_lookup_Some:
  "pci_lookup v d xs = Some i \<Longrightarrow>
     i < length xs \<and> pci_vendor (xs ! i) = v \<and> pci_device (xs ! i) = d"
  by (induction xs arbitrary: i) (auto split: if_splits)

lemma pci_lookup_config_update:
  "pci_lookup v d (xs[i := (xs ! i)\<lparr>pci_config := c\<rparr>]) = pci_lookup v d xs"
proof (induction xs arbitrary: i)
  case Nil
  show ?case by simp
next
  case (Cons x xs)
  show ?case by (cases i) (simp_all add: Cons.IH)
qed

lemma config_dword_other:
  "a \<notin> {wh, wh + 1, wh + 2, wh + 3} \<Longrightarrow> config_dword (c(a := v)) wh = config_dword c wh"
  by (simp add: config_dword_def)

lemma pins_0_value: "N5550_ICH_GPIO_PINS_0 = 0x1000023D"
  by (simp add: N5550_ICH_GPIO_PINS_0_def)

lemma pins_1_value: "N5550_ICH_GPIO_PINS_1 = 0x4"
  by (simp add: N5550_ICH_GPIO_PINS_1_def)

section \<open>Controller locator\<close>

text \<open>
  Claim C3. Over any list of registered GPIO controllers, \<open>n5550_get_ich_gpiobase\<close>
  picks the first controller whose label is not \<open>NULL\<close> and equals \<open>gpio_ich\<close>; a
  \<open>NULL\<close> label is skipped. Without a match the result is \<open>-ENODEV\<close>; if the match has
  a negative base the result is \<open>-EINVAL\<close>; otherwise the result is that base. The
  locator only reads the state: it is a function of it and returns no new state.
\<close>

theorem get_ich_gpiobase_first_match:
  "n5550_get_ich_gpiobase w =
     (case find (\<lambda>gc. gc_label gc = Some ''gpio_ich'') (gpio_chips w) of
        None \<Rightarrow> - ENODEV
      | Some gc \<Rightarrow> if sint (gc_base gc) < 0 then - EINVAL else gc_base gc)"
  by (simp add: n5550_get_ich_gpiobase_def gpiochip_find_def match_ich_gpiochip_iff
      split: option.splits)

theorem get_ich_gpiobase_first_match_witness:
  "n5550_get_ich_gpiobase example_board = 100 \<and>
   sint (n5550_get_ich_gpiobase board_without_gpio_chip) = - 19 \<and>
   sint (n5550_get_ich_gpiobase board_with_bad_base) = - 22"
  using get_ich_gpiobase_first_match [of example_board]
    get_ich_gpiobase_first_match [of board_without_gpio_chip]
    get_ich_gpiobase_first_match [of board_with_bad_base]
  by (simp add: example_defs ENODEV_def EINVAL_def)

section \<open>Satellite role tables\<close>

text \<open>
  Claim C9. Each of the two PCA9532 role tables has 16 slots. The chip at address 0x64
  has the LEDs \<open>n5550:red:disk-stat-0\<close> to \<open>n5550:red:disk-stat-4\<close> in slots 0 to 4, all
  off, and nothing in slots 5 to 15. The chip at address 0x62 has GPIO pins, off, in
  slots 0 to 3 and 15, the LEDs \<open>n5550:orange:busy\<close>, \<open>n5550:blue:usb\<close> and
  \<open>n5550:red:fail\<close>, off, in slots 9, 10 and 12, and nothing in slots 4 to 8, 11, 13
  and 14. All PWM and PSC values of both chips are zero.
\<close>

theorem pca9532_role_tables:
  "bi_addr n5550_pca9532_0_info = 0x64 \<and>
   bi_addr n5550_pca9532_1_info = 0x62 \<and>
   length (pd_leds (bi_platform_data n5550_pca9532_0_info)) = 16 \<and>
   length (pd_leds (bi_platform_data n5550_pca9532_1_info)) = 16 \<and>
   take 5 (pd_leds (bi_platform_data n5550_pca9532_0_info)) =
     map (\<lambda>n. \<lparr>pl_name = Some (''n5550:red:disk-stat-'' @ n),
                pl_type = PCA9532_TYPE_LED, pl_state = PCA9532_OFF\<rparr>)
       [''0'', ''1'', ''2'', ''3'', ''4''] \<and>
   map pl_type (drop 5 (pd_leds (bi_platform_data n5550_pca9532_0_info))) =
     replicate 11 PCA9532_TYPE_NONE \<and>
   map (\<lambda>i. pd_leds (bi_platform_data n5550_pca9532_1_info) ! i) [0, 1, 2, 3, 15] =
     replicate 5 \<lparr>pl_name = None, pl_type = PCA9532_TYPE_GPIO, pl_state = PCA9532_OFF\<rparr> \<and>
   map (\<lambda>i. pd_leds (bi_platform_data n5550_pca9532_1_info) ! i) [9, 10, 12] =
     map (\<lambda>n. \<lparr>pl_name = Some n, pl_type = PCA9532_TYPE_LED, pl_state = PCA9532_OFF\<rparr>)
       [''n5550:orange:busy'', ''n5550:blue:usb'', ''n5550:red:fail''] \<and>
   map (\<lambda>i. pl_type (pd_leds (bi_platform_data n5550_pca9532_1_info) ! i))
       [4, 5, 6, 7, 8, 11, 13, 14] =
     replicate 8 PCA9532_TYPE_NONE \<and>
   pd_pwm (bi_platform_data n5550_pca9532_0_info) = [0, 0] \<and>
   pd_psc (bi_platform_data n5550_pca9532_0_info) = [0, 0] \<and>
   pd_pwm (bi_platform_data n5550_pca9532_1_info) = [0, 0] \<and>
   pd_psc (bi_platform_data n5550_pca9532_1_info) = [0, 0]"
  by (simp add: n5550_pca9532_0_info_def n5550_pca9532_1_info_def
      n5550_pca9532_0_pdata_def n5550_pca9532_1_pdata_def eval_nat_numeral)

section \<open>LED device bring-up\<close>

subsection \<open>The loop\<close>

lemma led_loop_length: "length (led_loop i base leds) = length leds"
  by (induction i base leds rule: led_loop.induct) (subst led_loop.simps, simp)

lemma led_loop_nth:
  "length leds = N5550_NUM_LEDS \<Longrightarrow> k < N5550_NUM_LEDS \<Longrightarrow>
   led_loop i base leds ! k =
     (if i \<le> k then (leds ! k)\<lparr>gl_gpio := base + n5550_ich_gpio_led_offsets ! k\<rparr>
      else leds ! k)"
proof (induction i base leds rule: led_loop.induct)
  case (1 i base leds)
  show ?case
  proof (cases "i < N5550_NUM_LEDS")
    case True
    with 1 show ?thesis
      by (subst led_loop.simps) (cases "i = k", auto simp: nth_list_update)
  next
    case False
    with 1 show ?thesis by (subst led_loop.simps) auto
  qed
qed

lemma led_loop_0:
  assumes "length leds = N5550_NUM_LEDS"
  shows "led_loop 0 base leds =
     map (\<lambda>(l, off). l\<lparr>gl_gpio := base + off\<rparr>) (zip leds n5550_ich_gpio_led_offsets)"
proof (rule nth_equalityI)
  show "length (led_loop 0 base leds) =
    length (map (\<lambda>(l, off). l\<lparr>gl_gpio := base + off\<rparr>)
              (zip leds n5550_ich_gpio_led_offsets))"
    using assms by (simp add: led_loop_length n5550_ich_gpio_led_offsets_def N5550_NUM_LEDS_def)
next
  fix k assume "k < length (led_loop 0 base leds)"
  then have k: "k < N5550_NUM_LEDS" using assms by (simp add: led_loop_length)
  then show "led_loop 0 base leds ! k =
    map (\<lambda>(l, off). l\<lparr>gl_gpio := base + off\<rparr>) (zip leds n5550_ich_gpio_led_offsets) ! k"
    using assms by (simp add: led_loop_nth n5550_ich_gpio_led_offsets_def N5550_NUM_LEDS_def)
qed

lemma led_loop_gpio:
  assumes "length leds = N5550_NUM_LEDS"
  shows "map gl_gpio (led_loop 0 base leds) = [base + 0, base + 2, base + 3, base + 4, base + 5]"
proof -
  obtain a b c d e where "leds = [a, b, c, d, e]"
    using assms by (auto simp: N5550_NUM_LEDS_def length_Suc_conv eval_nat_numeral)
  then show ?thesis
    by (simp add: led_loop_0 N5550_NUM_LEDS_def n5550_ich_gpio_led_offsets_def)
qed

lemma led_loop_init:
  "map gl_gpio (led_loop 0 base n5550_ich_gpio_leds_init) =
     [base + 0, base + 2, base + 3, base + 4, base + 5]"
  by (rule led_loop_gpio) (simp add: n5550_ich_gpio_leds_init_def N5550_NUM_LEDS_def)

text \<open>Adding a small offset to a non-negative \<open>int\<close> does not wrap in \<open>unsigned\<close>.\<close>

lemma sint_nonneg_uint_add:
  fixes b k :: "32 word"
  assumes "0 \<le> sint b" and "uint k \<le> 5"
  shows "uint (b + k) = sint b + uint k"
proof -
  have lt: "sint b < 2 ^ (LENGTH(32) - 1)" by (rule sint_lt)
  then have lt31: "sint b < 2147483648" by simp
  then have "sint b < 2 ^ 32" by simp
  then have "take_bit 32 (sint b) = sint b"
    using assms(1) by (simp add: take_bit_int_eq_self)
  then have su: "uint b = sint b" by (simp add: uint_sint)
  have "uint b + uint k < 2 ^ LENGTH(32)" using lt31 su assms(2) by simp
  then have "uint (b + k) = uint b + uint k" by (rule uint_add_lem [THEN iffD1])
  then show ?thesis using su by simp
qed

subsection \<open>Resolved pins\<close>

text \<open>
  Claim C4. When the controller locator returns a non-negative base,
  \<open>n5550_ich_gpio_led_setup\<close> sets the pins of the five activity LEDs to base + 0,
  base + 2, base + 3, base + 4 and base + 5, without wrap-around, and only then
  registers the platform device: the registration is the one event appended and it sees
  those pins. When the locator fails, its error is returned as it is and the state is
  unchanged, so no registration was attempted. The LED array has its five entries.
\<close>

theorem led_setup_resolved_pins:
  assumes "length (n5550_ich_gpio_leds w) = N5550_NUM_LEDS"
      and "n5550_ich_gpio_led_setup w = (r, w')"
      and "base = n5550_get_ich_gpiobase w"
  shows "(sint base < 0 \<longrightarrow> r = base \<and> w' = w) \<and>
         (0 \<le> sint base \<longrightarrow>
            map gl_gpio (n5550_ich_gpio_leds w') =
              [base + 0, base + 2, base + 3, base + 4, base + 5] \<and>
            map (\<lambda>l. uint (gl_gpio l)) (n5550_ich_gpio_leds w') =
              [sint base + 0, sint base + 2, sint base + 3, sint base + 4, sint base + 5] \<and>
            r = platform_register_ret w \<and>
            trace w' = trace w @
              [Platform_device_register [base + 0, base + 2, base + 3, base + 4, base + 5] r])"
proof (intro conjI impI)
  assume neg: "sint base < 0"
  with assms(2,3) show "r = base" by (auto simp: n5550_ich_gpio_led_setup_def Let_def)
  from neg assms(2,3) show "w' = w" by (auto simp: n5550_ich_gpio_led_setup_def Let_def)
next
  assume nn: "0 \<le> sint base"
  have g: "map gl_gpio (led_loop 0 base (n5550_ich_gpio_leds w)) =
      [base + 0, base + 2, base + 3, base + 4, base + 5]"
    using assms(1) by (rule led_loop_gpio)
  from nn assms(2,3) have w': "w' = snd (platform_device_register
             (w\<lparr>n5550_ich_gpio_leds := led_loop 0 base (n5550_ich_gpio_leds w)\<rparr>))"
    and r: "r = fst (platform_device_register
             (w\<lparr>n5550_ich_gpio_leds := led_loop 0 base (n5550_ich_gpio_leds w)\<rparr>))"
    by (simp_all add: n5550_ich_gpio_led_setup_def Let_def)
  show pins: "map gl_gpio (n5550_ich_gpio_leds w') =
      [base + 0, base + 2, base + 3, base + 4, base + 5]"
    using g by (simp add: w' kernel_defs Let_def)
  have "map (\<lambda>l. uint (gl_gpio l)) (n5550_ich_gpio_leds w') =
      map uint (map gl_gpio (n5550_ich_gpio_leds w'))" by (simp add: comp_def)
  also have "\<dots> = [sint base + 0, sint base + 2, sint base + 3, sint base + 4, sint base + 5]"
    unfolding pins using nn sint_nonneg_uint_add [of base 0]
    by (simp add: sint_nonneg_uint_add)
  finally show "map (\<lambda>l. uint (gl_gpio l)) (n5550_ich_gpio_leds w') =
      [sint base + 0, sint base + 2, sint base + 3, sint base + 4, sint base + 5]" .
  show "r = platform_register_ret w" by (simp add: r kernel_defs Let_def)
  show "trace w' = trace w @
              [Platform_device_register [base + 0, base + 2, base + 3, base + 4, base + 5] r]"
    using g by (simp add: w' r kernel_defs Let_def)
qed

lemma example_board_gpiobase: "n5550_get_ich_gpiobase example_board = 100"
  by (simp add: board_defs example_defs)

lemma board_without_gpio_chip_gpiobase:
  "n5550_get_ich_gpiobase board_without_gpio_chip = - 19"
  by (simp add: board_defs example_defs)

theorem led_setup_resolved_pins_witness:
  "length (n5550_ich_gpio_leds example_board) = N5550_NUM_LEDS \<and>
   0 \<le> sint (n5550_get_ich_gpiobase example_board) \<and>
   map (\<lambda>l. uint (gl_gpio l))
     (n5550_ich_gpio_leds (snd (n5550_ich_gpio_led_setup example_board))) =
     [100, 102, 103, 104, 105] \<and>
   trace (snd (n5550_ich_gpio_led_setup example_board)) =
     [Platform_device_register [100, 102, 103, 104, 105] 0] \<and>
   sint (n5550_get_ich_gpiobase board_without_gpio_chip) < 0 \<and>
   n5550_ich_gpio_led_setup board_without_gpio_chip = (- 19, board_without_gpio_chip)"
proof -
  have len: "length (n5550_ich_gpio_leds example_board) = N5550_NUM_LEDS"
    by (simp add: example_defs n5550_ich_gpio_leds_init_def N5550_NUM_LEDS_def)
  have len': "length (n5550_ich_gpio_leds board_without_gpio_chip) = N5550_NUM_LEDS"
    by (simp add: example_defs n5550_ich_gpio_leds_init_def N5550_NUM_LEDS_def)
  have ret: "platform_register_ret example_board = 0" "trace example_board = []"
    by (simp_all add: example_defs)
  note ok = led_setup_resolved_pins [OF len prod.collapse [symmetric] refl]
  note ko = led_setup_resolved_pins [OF len' prod.collapse [symmetric] refl]
  show ?thesis
    using ok ko len
    by (simp add: example_board_gpiobase board_without_gpio_chip_gpiobase ret prod_eq_iff)
qed

section \<open>GPIO enable fixup\<close>

lemma pins_0_bits: "filter (bit N5550_ICH_GPIO_PINS_0) [0..<32] = [0, 2, 3, 4, 5, 9, 28]"
  unfolding pins_0_value by code_simp

lemma pins_1_bits: "filter (bit N5550_ICH_GPIO_PINS_1) [0..<32] = [2]"
  unfolding pins_1_value by code_simp

lemma gpio_setup_ports:
  "pci_lookup N5550_ICH_PCI_VENDOR N5550_ICH_LPC_PCI_DEV (pci_devices w) = Some d \<Longrightarrow>
   b = config_dword (pci_config (pci_devices w ! d)) N5550_ICH_PCI_GPIO_BASE AND 0xff80 \<Longrightarrow>
   io_ports (snd (n5550_ich_gpio_setup w)) =
     (io_ports w)
       (b + N5550_ICH_GPIO_USE_SEL_0 :=
          io_ports w (b + N5550_ICH_GPIO_USE_SEL_0) OR N5550_ICH_GPIO_PINS_0,
        b + N5550_ICH_GPIO_USE_SEL_1 :=
          io_ports w (b + N5550_ICH_GPIO_USE_SEL_1) OR N5550_ICH_GPIO_PINS_1)"
  by (simp add: n5550_ich_gpio_setup_def kernel_defs Let_def
      N5550_ICH_GPIO_USE_SEL_0_def N5550_ICH_GPIO_USE_SEL_1_def split: prod.splits)

lemma gpio_setup_ports_absent:
  "pci_lookup N5550_ICH_PCI_VENDOR N5550_ICH_LPC_PCI_DEV (pci_devices w) = None \<Longrightarrow>
   io_ports (snd (n5550_ich_gpio_setup w)) = io_ports w"
  by (simp add: n5550_ich_gpio_setup_def kernel_defs Let_def)

lemma gpio_setup_devices:
  "pci_lookup N5550_ICH_PCI_VENDOR N5550_ICH_LPC_PCI_DEV (pci_devices w) = Some d \<Longrightarrow>
   pci_devices (snd (n5550_ich_gpio_setup w)) =
     (pci_devices w)[d := (pci_devices w ! d)
        \<lparr>pci_config := (pci_config (pci_devices w ! d))(N5550_ICH_PCI_GPIO_CTRL := 0x10)\<rparr>]"
  by (simp add: n5550_ich_gpio_setup_def kernel_defs Let_def split: prod.splits)

lemma gpio_setup_devices_absent:
  "pci_lookup N5550_ICH_PCI_VENDOR N5550_ICH_LPC_PCI_DEV (pci_devices w) = None \<Longrightarrow>
   pci_devices (snd (n5550_ich_gpio_setup w)) = pci_devices w"
  by (simp add: n5550_ich_gpio_setup_def kernel_defs Let_def)

text \<open>A second run finds the same function and the same I/O base, and ORs the same
  masks into registers that already have them.\<close>

lemma gpio_setup_idem:
  "io_ports (snd (n5550_ich_gpio_setup (snd (n5550_ich_gpio_setup w)))) =
   io_ports (snd (n5550_ich_gpio_setup w))"
proof (cases "pci_lookup N5550_ICH_PCI_VENDOR N5550_ICH_LPC_PCI_DEV (pci_devices w)")
  case None
  then show ?thesis
    by (simp add: gpio_setup_ports_absent gpio_setup_devices_absent)
next
  case (Some d)
  let ?w' = "snd (n5550_ich_gpio_setup w)"
  let ?b = "config_dword (pci_config (pci_devices w ! d)) N5550_ICH_PCI_GPIO_BASE AND 0xff80"
  let ?s0 = "?b + N5550_ICH_GPIO_USE_SEL_0"
  let ?s1 = "?b + N5550_ICH_GPIO_USE_SEL_1"
  have d: "d < length (pci_devices w)" using Some by (simp add: pci_lookup_Some)
  have l': "pci_lookup N5550_ICH_PCI_VENDOR N5550_ICH_LPC_PCI_DEV (pci_devices ?w') = Some d"
    using Some by (simp add: gpio_setup_devices pci_lookup_config_update)
  have b': "config_dword (pci_config (pci_devices ?w' ! d)) N5550_ICH_PCI_GPIO_BASE AND 0xff80
      = ?b"
    using Some d
    by (simp add: gpio_setup_devices config_dword_other N5550_ICH_PCI_GPIO_CTRL_def
        N5550_ICH_PCI_GPIO_BASE_def)
  have p: "io_ports ?w' = (io_ports w)(?s0 := io_ports w ?s0 OR N5550_ICH_GPIO_PINS_0,
         ?s1 := io_ports w ?s1 OR N5550_ICH_GPIO_PINS_1)"
    using Some by (rule gpio_setup_ports) simp
  have "io_ports (snd (n5550_ich_gpio_setup ?w')) =
     (io_ports ?w')(?s0 := io_ports ?w' ?s0 OR N5550_ICH_GPIO_PINS_0,
         ?s1 := io_ports ?w' ?s1 OR N5550_ICH_GPIO_PINS_1)"
    using l' by (rule gpio_setup_ports) (simp add: b')
  also have "\<dots> = io_ports ?w'"
    by (simp add: p fun_eq_iff N5550_ICH_GPIO_USE_SEL_0_def N5550_ICH_GPIO_USE_SEL_1_def)
  finally show ?thesis .
qed

lemma gpio_setup_mono:
  "bit (io_ports w p) n \<Longrightarrow> bit (io_ports (snd (n5550_ich_gpio_setup w)) p) n"
proof (cases "pci_lookup N5550_ICH_PCI_VENDOR N5550_ICH_LPC_PCI_DEV (pci_devices w)")
  case None
  then show "bit (io_ports w p) n \<Longrightarrow> ?thesis" by (simp add: gpio_setup_ports_absent)
next
  case (Some d)
  show "bit (io_ports w p) n \<Longrightarrow> ?thesis"
    by (auto simp add: gpio_setup_ports [OF Some refl] bit_or_iff)
qed

text \<open>
  Claim C5. The fixup ORs a fixed mask into each pin-ownership register: the first
  (offset 0x00 from the I/O base) gets bits 0, 2, 3, 4, 5, 9 and 28, that is
  \<open>0x1000023D\<close>, the second (offset 0x30) gets bit 2, that is \<open>0x00000004\<close>, and no
  other port changes. From value 0 the registers become exactly the masks. Running the
  fixup on its own output leaves every port as it is, and a bit that is set in any port
  before the fixup is set after it. A port holds what was last written to it.
\<close>

theorem gpio_setup_or_mask:
  assumes "w' = snd (n5550_ich_gpio_setup w)"
  shows "filter (bit N5550_ICH_GPIO_PINS_0) [0..<32] = [0, 2, 3, 4, 5, 9, 28] \<and>
    N5550_ICH_GPIO_PINS_0 = 0x1000023D \<and>
    filter (bit N5550_ICH_GPIO_PINS_1) [0..<32] = [2] \<and>
    N5550_ICH_GPIO_PINS_1 = 0x00000004 \<and>
    (\<forall>d. pci_lookup N5550_ICH_PCI_VENDOR N5550_ICH_LPC_PCI_DEV (pci_devices w) = Some d \<longrightarrow>
       (let gpio_io_base =
              config_dword (pci_config (pci_devices w ! d)) N5550_ICH_PCI_GPIO_BASE AND 0xff80;
            sel0 = gpio_io_base + N5550_ICH_GPIO_USE_SEL_0;
            sel1 = gpio_io_base + N5550_ICH_GPIO_USE_SEL_1
        in io_ports w' =
             (io_ports w)(sel0 := io_ports w sel0 OR N5550_ICH_GPIO_PINS_0,
                          sel1 := io_ports w sel1 OR N5550_ICH_GPIO_PINS_1) \<and>
           (io_ports w sel0 = 0 \<longrightarrow> io_ports w' sel0 = 0x1000023D) \<and>
           (io_ports w sel1 = 0 \<longrightarrow> io_ports w' sel1 = 0x00000004))) \<and>
    io_ports (snd (n5550_ich_gpio_setup w')) = io_ports w' \<and>
    (\<forall>p n. bit (io_ports w p) n \<longrightarrow> bit (io_ports w' p) n)"
proof -
  have or_mask: "\<forall>d. pci_lookup N5550_ICH_PCI_VENDOR N5550_ICH_LPC_PCI_DEV (pci_devices w) = Some d \<longrightarrow>
       (let gpio_io_base =
              config_dword (pci_config (pci_devices w ! d)) N5550_ICH_PCI_GPIO_BASE AND 0xff80;
            sel0 = gpio_io_base + N5550_ICH_GPIO_USE_SEL_0;
            sel1 = gpio_io_base + N5550_ICH_GPIO_USE_SEL_1
        in io_ports w' =
             (io_ports w)(sel0 := io_ports w sel0 OR N5550_ICH_GPIO_PINS_0,
                          sel1 := io_ports w sel1 OR N5550_ICH_GPIO_PINS_1) \<and>
           (io_ports w sel0 = 0 \<longrightarrow> io_ports w' sel0 = 0x1000023D) \<and>
           (io_ports w sel1 = 0 \<longrightarrow> io_ports w' sel1 = 0x00000004))"
  proof (intro allI impI)
    fix d
    assume l: "pci_lookup N5550_ICH_PCI_VENDOR N5550_ICH_LPC_PCI_DEV (pci_devices w) = Some d"
    show "let gpio_io_base =
              config_dword (pci_config (pci_devices w ! d)) N5550_ICH_PCI_GPIO_BASE AND 0xff80;
            sel0 = gpio_io_base + N5550_ICH_GPIO_USE_SEL_0;
            sel1 = gpio_io_base + N5550_ICH_GPIO_USE_SEL_1
        in io_ports w' =
             (io_ports w)(sel0 := io_ports w sel0 OR N5550_ICH_GPIO_PINS_0,
                          sel1 := io_ports w sel1 OR N5550_ICH_GPIO_PINS_1) \<and>
           (io_ports w sel0 = 0 \<longrightarrow> io_ports w' sel0 = 0x1000023D) \<and>
           (io_ports w sel1 = 0 \<longrightarrow> io_ports w' sel1 = 0x00000004)"
      unfolding assms Let_def gpio_setup_ports [OF l refl]
      by (simp add: pins_0_value pins_1_value
          N5550_ICH_GPIO_USE_SEL_0_def N5550_ICH_GPIO_USE_SEL_1_def)
  qed
  have idem: "io_ports (snd (n5550_ich_gpio_setup w')) = io_ports w'"
    unfolding assms by (rule gpio_setup_idem)
  have mono: "\<forall>p n. bit (io_ports w p) n \<longrightarrow> bit (io_ports w' p) n"
    unfolding assms by (simp add: gpio_setup_mono)
  show ?thesis
    using pins_0_bits pins_0_value pins_1_bits pins_1_value or_mask idem mono
    by (intro conjI)
qed

subsection \<open>The fixup on the example board\<close>

lemma example_lpc_lookup:
  "pci_lookup N5550_ICH_PCI_VENDOR N5550_ICH_LPC_PCI_DEV (pci_devices example_board) = Some 0"
  by (simp add: example_defs const_defs)

lemma example_gpio_io_base:
  "config_dword (pci_config (pci_devices example_board ! 0)) N5550_ICH_PCI_GPIO_BASE AND 0xff80
     = 0x480"
  by (simp add: example_defs const_defs config_dword_def)

lemma firmware_pins_bit: "bit (io_ports board_with_firmware_pins 0x480) 6"
  by (simp add: example_defs bit_iff_odd)

theorem gpio_setup_or_mask_witness:
  "pci_lookup N5550_ICH_PCI_VENDOR N5550_ICH_LPC_PCI_DEV (pci_devices example_board) = Some 0 \<and>
   io_ports example_board 0x480 = 0 \<and> io_ports example_board 0x4b0 = 0 \<and>
   io_ports (snd (n5550_ich_gpio_setup example_board)) 0x480 = 0x1000023D \<and>
   io_ports (snd (n5550_ich_gpio_setup example_board)) 0x4b0 = 0x4 \<and>
   bit (io_ports board_with_firmware_pins 0x480) 6 \<and>
   bit (io_ports (snd (n5550_ich_gpio_setup board_with_firmware_pins)) 0x480) 6"
proof -
  have z: "io_ports example_board 0x480 = 0" "io_ports example_board 0x4b0 = 0"
    by (simp_all add: example_defs)
  note t = gpio_setup_or_mask [OF refl, of example_board]
  from t example_lpc_lookup have
    "let gpio_io_base =
              config_dword (pci_config (pci_devices example_board ! 0)) N5550_ICH_PCI_GPIO_BASE AND 0xff80;
            sel0 = gpio_io_base + N5550_ICH_GPIO_USE_SEL_0;
            sel1 = gpio_io_base + N5550_ICH_GPIO_USE_SEL_1
        in io_ports (snd (n5550_ich_gpio_setup example_board)) =
             (io_ports example_board)(sel0 := io_ports example_board sel0 OR N5550_ICH_GPIO_PINS_0,
                          sel1 := io_ports example_board sel1 OR N5550_ICH_GPIO_PINS_1) \<and>
           (io_ports example_board sel0 = 0 \<longrightarrow> io_ports (snd (n5550_ich_gpio_setup example_board)) sel0 = 0x1000023D) \<and>
           (io_ports example_board sel1 = 0 \<longrightarrow> io_ports (snd (n5550_ich_gpio_setup example_board)) sel1 = 0x00000004)"
    by blast
  then have a: "io_ports (snd (n5550_ich_gpio_setup example_board)) 0x480 = 0x1000023D \<and>
   io_ports (snd (n5550_ich_gpio_setup example_board)) 0x4b0 = 0x4"
    using z unfolding Let_def example_gpio_io_base
    by (simp add: N5550_ICH_GPIO_USE_SEL_0_def N5550_ICH_GPIO_USE_SEL_1_def
        pins_0_value pins_1_value)
  have "bit (io_ports (snd (n5550_ich_gpio_setup board_with_firmware_pins)) 0x480) 6"
    using gpio_setup_or_mask [OF refl, of board_with_firmware_pins] firmware_pins_bit
    by blast
  then show ?thesis using a z example_lpc_lookup firmware_pins_bit by simp
qed


text \<open>
  Claim C8. The fixup returns \<open>-ENODEV\<close> exactly when no PCI function with the Intel
  vendor id and device id \<open>0x3a16\<close> exists, and then neither a configuration register
  nor a port has been written: the only event is the failed lookup. When the function
  exists the fixup returns 0; the I/O base is the dword at configuration register
  \<open>0x48\<close> masked with \<open>0x0000ff80\<close>, and the byte \<open>0x10\<close> is written to register
  \<open>0x4c\<close> without reading it first, so the register holds \<open>0x10\<close> whatever it held.
\<close>

theorem gpio_setup_not_found:
  assumes "n5550_ich_gpio_setup w = (r, w')"
  shows
   "(r = - ENODEV \<longleftrightarrow> pci_lookup PCI_VENDOR_ID_INTEL 0x3a16 (pci_devices w) = None) \<and>
    (pci_lookup PCI_VENDOR_ID_INTEL 0x3a16 (pci_devices w) = None \<longrightarrow>
       pci_devices w' = pci_devices w \<and> io_ports w' = io_ports w \<and>
       trace w' = trace w @ [Pci_get_device PCI_VENDOR_ID_INTEL 0x3a16 None]) \<and>
    (\<forall>d. pci_lookup PCI_VENDOR_ID_INTEL 0x3a16 (pci_devices w) = Some d \<longrightarrow>
       r = 0 \<and>
       (let gpio_io_base = config_dword (pci_config (pci_devices w ! d)) 0x48 AND 0x0000ff80 in
        trace w' = trace w @
          [Pci_get_device PCI_VENDOR_ID_INTEL 0x3a16 (Some d),
           Pci_read_config_dword d 0x48,
           Pci_write_config_byte d 0x4c 0x10,
           Port_inl gpio_io_base,
           Port_outl (io_ports w gpio_io_base OR 0x1000023D) gpio_io_base,
           Port_inl (gpio_io_base + 0x30),
           Port_outl (io_ports w (gpio_io_base + 0x30) OR 0x4) (gpio_io_base + 0x30),
           Pci_dev_put d]) \<and>
       pci_devices w' = (pci_devices w)[d := (pci_devices w ! d)
          \<lparr>pci_config := (pci_config (pci_devices w ! d))(0x4c := 0x10)\<rparr>] \<and>
       pci_config (pci_devices w' ! d) 0x4c = 0x10)"
  using assms
  by (auto simp: n5550_ich_gpio_setup_def kernel_defs const_defs Let_def pins_0_value
      pins_1_value ENODEV_def dest: pci_lookup_Some
      split: option.splits if_splits prod.splits)

theorem gpio_setup_not_found_witness:
  "pci_lookup PCI_VENDOR_ID_INTEL 0x3a16 (pci_devices board_without_lpc) = None \<and>
   sint (fst (n5550_ich_gpio_setup board_without_lpc)) = - 19 \<and>
   pci_devices (snd (n5550_ich_gpio_setup board_without_lpc)) = pci_devices board_without_lpc \<and>
   io_ports (snd (n5550_ich_gpio_setup board_without_lpc)) = io_ports board_without_lpc \<and>
   pci_lookup PCI_VENDOR_ID_INTEL 0x3a16 (pci_devices example_board) = Some 0 \<and>
   fst (n5550_ich_gpio_setup example_board) = 0 \<and>
   pci_config (pci_devices example_board ! 0) 0x4c = 0x03 \<and>
   pci_config (pci_devices (snd (n5550_ich_gpio_setup example_board)) ! 0) 0x4c = 0x10 \<and>
   trace (snd (n5550_ich_gpio_setup example_board)) =
     [Pci_get_device 0x8086 0x3a16 (Some 0), Pci_read_config_dword 0 0x48,
      Pci_write_config_byte 0 0x4c 0x10, Port_inl 0x480, Port_outl 0x1000023D 0x480,
      Port_inl 0x4b0, Port_outl 0x4 0x4b0, Pci_dev_put 0]"
proof -
  have n: "pci_lookup PCI_VENDOR_ID_INTEL 0x3a16 (pci_devices board_without_lpc) = None"
    by (simp add: example_defs const_defs)
  have s: "pci_lookup PCI_VENDOR_ID_INTEL 0x3a16 (pci_devices example_board) = Some 0"
    by (simp add: example_defs const_defs)
  have b: "config_dword (pci_config (pci_devices example_board ! 0)) 0x48 AND 0xff80 = 0x480"
    using example_gpio_io_base by (simp add: const_defs)
  have c: "pci_config (pci_devices example_board ! 0) 0x4c = 0x03"
    "trace example_board = []" "io_ports example_board 0x480 = 0"
    "io_ports example_board 0x4b0 = 0" "length (pci_devices example_board) = 2"
    by (simp_all add: example_defs)
  note absent = gpio_setup_not_found [OF prod.collapse [symmetric], of board_without_lpc]
  note present = gpio_setup_not_found [OF prod.collapse [symmetric], of example_board]
  from absent n have 1: "sint (fst (n5550_ich_gpio_setup board_without_lpc)) = - 19 \<and>
   pci_devices (snd (n5550_ich_gpio_setup board_without_lpc)) = pci_devices board_without_lpc \<and>
   io_ports (snd (n5550_ich_gpio_setup board_without_lpc)) = io_ports board_without_lpc"
    by (simp add: ENODEV_def)
  from present s have 2: "fst (n5550_ich_gpio_setup example_board) = 0 \<and>
   pci_config (pci_devices (snd (n5550_ich_gpio_setup example_board)) ! 0) 0x4c = 0x10 \<and>
   trace (snd (n5550_ich_gpio_setup example_board)) =
     [Pci_get_device 0x8086 0x3a16 (Some 0), Pci_read_config_dword 0 0x48,
      Pci_write_config_byte 0 0x4c 0x10, Port_inl 0x480, Port_outl 0x1000023D 0x480,
      Port_inl 0x4b0, Port_outl 0x4 0x4b0, Pci_dev_put 0]"
    by (simp add: Let_def b c PCI_VENDOR_ID_INTEL_def)
  show ?thesis using n s c 1 2 by simp
qed

section \<open>Satellite chip bring-up\<close>

subsection \<open>The bring-up on the example boards\<close>

lemma example_pca9532_setup:
  "fst (n5550_pca9532_setup example_board) = 0 \<and>
   trace (snd (n5550_pca9532_setup example_board)) =
     [Pci_get_device 0x8086 0x3a30 (Some 1), Try_module_get (Some 1) True,
      I2c_new_client_device 0 0x64 (Some 10), I2c_new_client_device 0 0x62 (Some 11),
      Module_put (Some 1), Pci_dev_put 1]"
  by (simp add: board_defs kernel_defs example_defs const_defs Let_def)

lemma second_chip_fails_pca9532_setup:
  "trace (snd (n5550_pca9532_setup board_second_chip_fails)) =
     [Pci_get_device 0x8086 0x3a30 (Some 1), Try_module_get (Some 1) True,
      I2c_new_client_device 0 0x64 (Some 10), I2c_new_client_device 0 0x62 None,
      I2c_unregister_device (Some 10), Module_put (Some 1), Pci_dev_put 1]"
  by (simp add: board_defs kernel_defs example_defs const_defs Let_def)

lemma adapter_busy_pca9532_setup:
  "trace (snd (n5550_pca9532_setup board_adapter_busy)) =
     [Pci_get_device 0x8086 0x3a30 (Some 1), Try_module_get (Some 1) False, Pci_dev_put 1]"
  by (simp add: board_defs kernel_defs example_defs const_defs Let_def)

lemma example_traces_empty:
  "trace example_board = []" "trace board_second_chip_fails = []"
  "trace board_adapter_busy = []" "trace board_without_lpc = []"
  "trace board_without_gpio_chip = []"
  by (simp_all add: example_defs)

subsection \<open>Rollback of the first chip\<close>

text \<open>When the first chip was registered and the registration of the second chip yields
  \<open>NULL\<close>, the rollback runs: the first client is unregistered, the module reference
  and the PCI function are released, and the result is \<open>-ENODEV\<close>.\<close>

lemma pca9532_setup_second_null:
  assumes "pci_lookup N5550_ICH_PCI_VENDOR N5550_ICH_I2C_PCI_DEV (pci_devices w) = Some d"
      and "pci_drvdata (pci_devices w ! d) = Some adapter"
      and "case adap_owner adapter of None \<Rightarrow> True | Some m \<Rightarrow> module_live w m"
      and "i2c_probe w (adap_nr adapter) 0x64 = Some c0"
      and "\<not> IS_ERR_VALUE c0"
      and "i2c_probe w (adap_nr adapter) 0x62 = None"
      and "n5550_pca9532_setup w = (r, w')"
  shows "r = - ENODEV \<and>
     trace w' = trace w @
       [Pci_get_device N5550_ICH_PCI_VENDOR N5550_ICH_I2C_PCI_DEV (Some d),
        Try_module_get (adap_owner adapter) True,
        I2c_new_client_device (adap_nr adapter) 0x64 (Some c0),
        I2c_new_client_device (adap_nr adapter) 0x62 None,
        I2c_unregister_device (Some c0),
        Module_put (adap_owner adapter),
        Pci_dev_put d] \<and>
     i2c_clients w' = i2c_clients w \<and> module_refs w' = module_refs w"
  using assms
  by (auto simp: n5550_pca9532_setup_def kernel_defs Let_def
       n5550_pca9532_0_info_def n5550_pca9532_1_info_def
      split: option.splits if_splits prod.splits)

text \<open>When it yields an error pointer instead, the test against \<open>NULL\<close> does not see
  the failure: the bring-up returns 0, the first client stays registered and the error
  pointer is kept in \<open>n5550_pca9532_1_client\<close>.\<close>

lemma pca9532_setup_second_err_ptr:
  assumes "pci_lookup N5550_ICH_PCI_VENDOR N5550_ICH_I2C_PCI_DEV (pci_devices w) = Some d"
      and "pci_drvdata (pci_devices w ! d) = Some adapter"
      and "case adap_owner adapter of None \<Rightarrow> True | Some m \<Rightarrow> module_live w m"
      and "i2c_probe w (adap_nr adapter) 0x64 = Some c0"
      and "\<not> IS_ERR_VALUE c0"
      and "i2c_probe w (adap_nr adapter) 0x62 = Some e"
      and "IS_ERR_VALUE e"
      and "n5550_pca9532_setup w = (r, w')"
  shows "r = 0 \<and>
     trace w' = trace w @
       [Pci_get_device N5550_ICH_PCI_VENDOR N5550_ICH_I2C_PCI_DEV (Some d),
        Try_module_get (adap_owner adapter) True,
        I2c_new_client_device (adap_nr adapter) 0x64 (Some c0),
        I2c_new_client_device (adap_nr adapter) 0x62 (Some e),
        Module_put (adap_owner adapter),
        Pci_dev_put d] \<and>
     i2c_clients w' = c0 # i2c_clients w \<and>
     n5550_pca9532_0_client w' = Some c0 \<and> n5550_pca9532_1_client w' = Some e"
  using assms
  by (auto simp: n5550_pca9532_setup_def kernel_defs Let_def
       n5550_pca9532_0_info_def n5550_pca9532_1_info_def
      split: option.splits if_splits prod.splits)

lemma err_ptr_ebusy: "ERR_PTR (- EBUSY) = Some 18446744073709551600"
  by (simp add: err_defs EBUSY_def)

lemma is_err_value_ebusy: "IS_ERR_VALUE 18446744073709551600" "\<not> IS_ERR_VALUE 10"
  by (simp_all add: err_defs)

text \<open>
  Claim C6. The claim asks that, when registering the second chip (address 0x62) fails
  after the first chip (address 0x64) was registered, the first chip's client is
  unregistered once and the module reference is released once before \<open>-ENODEV\<close> is
  returned. On a board where the kernel refuses the second chip with
  \<open>ERR_PTR(-EBUSY)\<close>, the bring-up does not do this: it returns 0, no client is
  unregistered, client 10 of the first chip stays registered, and the error pointer is
  stored as the second client. The module reference is released once.
\<close>

theorem pca9532_setup_err_ptr_no_rollback:
  "i2c_probe board_second_chip_err_ptr 0 0x64 = Some 10 \<and>
   i2c_probe board_second_chip_err_ptr 0 0x62 = ERR_PTR (- EBUSY) \<and>
   ERR_PTR (- EBUSY) = Some 18446744073709551600 \<and>
   IS_ERR_VALUE 18446744073709551600 \<and>
   fst (n5550_pca9532_setup board_second_chip_err_ptr) = 0 \<and>
   fst (n5550_pca9532_setup board_second_chip_err_ptr) \<noteq> - ENODEV \<and>
   trace (snd (n5550_pca9532_setup board_second_chip_err_ptr)) =
     [Pci_get_device 0x8086 0x3a30 (Some 1), Try_module_get (Some 1) True,
      I2c_new_client_device 0 0x64 (Some 10),
      I2c_new_client_device 0 0x62 (Some 18446744073709551600),
      Module_put (Some 1), Pci_dev_put 1] \<and>
   I2c_unregister_device (Some 10)
     \<notin> set (trace (snd (n5550_pca9532_setup board_second_chip_err_ptr))) \<and>
   i2c_clients (snd (n5550_pca9532_setup board_second_chip_err_ptr)) = [10] \<and>
   n5550_pca9532_1_client (snd (n5550_pca9532_setup board_second_chip_err_ptr)) =
     ERR_PTR (- EBUSY)"
proof -
  have l: "pci_lookup N5550_ICH_PCI_VENDOR N5550_ICH_I2C_PCI_DEV
      (pci_devices board_second_chip_err_ptr) = Some 1"
    by (simp add: example_defs const_defs)
  have a: "pci_drvdata (pci_devices board_second_chip_err_ptr ! 1)
      = Some \<lparr>adap_nr = 0, adap_owner = Some 1\<rparr>"
    by (simp add: example_defs)
  have m: "case adap_owner \<lparr>adap_nr = 0, adap_owner = Some 1\<rparr> of None \<Rightarrow> True
      | Some m \<Rightarrow> module_live board_second_chip_err_ptr m"
    by (simp add: example_defs)
  have p0: "i2c_probe board_second_chip_err_ptr
      (adap_nr \<lparr>adap_nr = 0, adap_owner = Some 1\<rparr>) 0x64 = Some 10"
    by (simp add: example_defs)
  have p1: "i2c_probe board_second_chip_err_ptr
      (adap_nr \<lparr>adap_nr = 0, adap_owner = Some 1\<rparr>) 0x62 = Some 18446744073709551600"
    by (simp add: example_defs err_ptr_ebusy)
  have c: "i2c_clients board_second_chip_err_ptr = []" "trace board_second_chip_err_ptr = []"
    by (simp_all add: example_defs)
  note r = pca9532_setup_second_err_ptr
    [OF l a m p0 is_err_value_ebusy(2) p1 is_err_value_ebusy(1) prod.collapse [symmetric]]
  show ?thesis
    using r p0 p1 c
    by (simp add: err_ptr_ebusy is_err_value_ebusy const_defs ENODEV_def)
qed

subsection \<open>The transient module reference\<close>

text \<open>
  Claim C7. The bring-up tries to take the reference on the adapter's owning module at
  most once. The references it releases are exactly the references it took: when the
  reference was taken it is released exactly once, after it was taken, on whichever path
  the bring-up leaves. When the reference cannot be taken, the bring-up returns
  \<open>-EBUSY\<close>, makes no registration attempt and releases nothing.
\<close>

theorem pca9532_setup_module_reference:
  assumes "n5550_pca9532_setup w = (r, w')" and "es = new_events w w'"
  shows "trace w' = trace w @ es \<and>
    length (module_tries es) \<le> 1 \<and>
    module_puts es = module_gets es \<and>
    (\<forall>m. Try_module_get m True \<in> set es \<longrightarrow>
        module_puts es = [m] \<and> happens_before (Try_module_get m True) (Module_put m) es) \<and>
    (\<forall>m. Try_module_get m False \<in> set es \<longrightarrow>
        r = - EBUSY \<and> i2c_news es = [] \<and> module_puts es = [] \<and>
        i2c_clients w' = i2c_clients w) \<and>
    module_refs w' = module_refs w"
  using assms
  by (auto simp: n5550_pca9532_setup_def kernel_defs new_events_def Let_def happens_before_def
       n5550_pca9532_0_info_def n5550_pca9532_1_info_def
      split: option.splits if_splits prod.splits)

theorem pca9532_setup_module_reference_witness:
  "Try_module_get (Some 1) True
     \<in> set (new_events example_board (snd (n5550_pca9532_setup example_board))) \<and>
   module_puts (new_events example_board (snd (n5550_pca9532_setup example_board))) = [Some 1] \<and>
   Try_module_get (Some 1) False
     \<in> set (new_events board_adapter_busy (snd (n5550_pca9532_setup board_adapter_busy))) \<and>
   sint (fst (n5550_pca9532_setup board_adapter_busy)) = - 16 \<and>
   i2c_news (new_events board_adapter_busy (snd (n5550_pca9532_setup board_adapter_busy))) = []"
proof -
  have e1: "new_events example_board (snd (n5550_pca9532_setup example_board)) =
     [Pci_get_device 0x8086 0x3a30 (Some 1), Try_module_get (Some 1) True,
      I2c_new_client_device 0 0x64 (Some 10), I2c_new_client_device 0 0x62 (Some 11),
      Module_put (Some 1), Pci_dev_put 1]"
    by (simp add: new_events_def example_traces_empty example_pca9532_setup)
  have e2: "new_events board_adapter_busy (snd (n5550_pca9532_setup board_adapter_busy)) =
     [Pci_get_device 0x8086 0x3a30 (Some 1), Try_module_get (Some 1) False, Pci_dev_put 1]"
    by (simp add: new_events_def example_traces_empty adapter_busy_pca9532_setup)
  have m1: "Try_module_get (Some 1) True
     \<in> set (new_events example_board (snd (n5550_pca9532_setup example_board)))"
    by (simp add: e1)
  have m2: "Try_module_get (Some 1) False
     \<in> set (new_events board_adapter_busy (snd (n5550_pca9532_setup board_adapter_busy)))"
    by (simp add: e2)
  note ok = pca9532_setup_module_reference [OF prod.collapse [symmetric] refl, of example_board]
  note busy = pca9532_setup_module_reference
    [OF prod.collapse [symmetric] refl, of board_adapter_busy]
  from ok m1 have 1: "module_puts (new_events example_board
      (snd (n5550_pca9532_setup example_board))) = [Some 1]"
    by blast
  from busy m2 have 2: "fst (n5550_pca9532_setup board_adapter_busy) = - EBUSY \<and>
     i2c_news (new_events board_adapter_busy (snd (n5550_pca9532_setup board_adapter_busy))) = []"
    by blast
  show ?thesis using m1 m2 1 2 by (simp add: EBUSY_def)
qed

subsection \<open>The PCI function reference\<close>

text \<open>
  Claim C10. In the GPIO fixup and in the satellite bring-up alike, the PCI functions
  released are exactly the PCI functions obtained: a successful \<open>pci_get_device\<close> is
  followed by exactly one \<open>pci_dev_put\<close> of that function, which is the last event
  before the return on every path, and a failed lookup is followed by none.
\<close>

theorem pci_dev_put_balances_get:
  assumes "f = n5550_ich_gpio_setup \<or> f = n5550_pca9532_setup"
      and "f w = (r, w')" and "es = new_events w w'"
  shows "trace w' = trace w @ es \<and>
    pci_puts es = pci_gets es \<and>
    length (pci_gets es) \<le> 1 \<and>
    (\<forall>d. d \<in> set (pci_gets es) \<longrightarrow> pci_puts es = [d] \<and> last es = Pci_dev_put d) \<and>
    pci_refs w' = pci_refs w"
proof -
  have 1: ?thesis if "n5550_ich_gpio_setup w = (r, w')"
    using that assms(3)
    by (auto simp: n5550_ich_gpio_setup_def kernel_defs new_events_def Let_def
        split: option.splits if_splits prod.splits)
  have 2: ?thesis if "n5550_pca9532_setup w = (r, w')"
    using that assms(3)
    by (auto simp: n5550_pca9532_setup_def kernel_defs new_events_def Let_def
        split: option.splits if_splits prod.splits)
  from assms(1,2) 1 2 show ?thesis by blast
qed

lemma example_gpio_setup_trace:
  "trace (snd (n5550_ich_gpio_setup example_board)) =
     [Pci_get_device 0x8086 0x3a16 (Some 0), Pci_read_config_dword 0 0x48,
      Pci_write_config_byte 0 0x4c 0x10, Port_inl 0x480, Port_outl 0x1000023D 0x480,
      Port_inl 0x4b0, Port_outl 0x4 0x4b0, Pci_dev_put 0]"
  by (simp add: board_defs kernel_defs example_defs const_defs Let_def config_dword_def
      pins_0_value pins_1_value)

lemma without_lpc_gpio_setup_trace:
  "trace (snd (n5550_ich_gpio_setup board_without_lpc)) =
     [Pci_get_device 0x8086 0x3a16 None]"
  by (simp add: board_defs kernel_defs example_defs const_defs Let_def)

theorem pci_dev_put_balances_get_witness:
  "pci_gets (new_events example_board (snd (n5550_ich_gpio_setup example_board))) = [0] \<and>
   pci_puts (new_events example_board (snd (n5550_ich_gpio_setup example_board))) = [0] \<and>
   last (new_events example_board (snd (n5550_ich_gpio_setup example_board))) = Pci_dev_put 0 \<and>
   pci_gets (new_events example_board (snd (n5550_pca9532_setup example_board))) = [1] \<and>
   pci_puts (new_events example_board (snd (n5550_pca9532_setup example_board))) = [1] \<and>
   last (new_events example_board (snd (n5550_pca9532_setup example_board))) = Pci_dev_put 1 \<and>
   pci_gets (new_events board_without_lpc (snd (n5550_ich_gpio_setup board_without_lpc))) = [] \<and>
   pci_puts (new_events board_without_lpc (snd (n5550_ich_gpio_setup board_without_lpc))) = []"
proof -
  have g1: "pci_gets (new_events example_board (snd (n5550_ich_gpio_setup example_board))) = [0]"
    by (simp add: new_events_def example_traces_empty example_gpio_setup_trace)
  have g2: "pci_gets (new_events example_board (snd (n5550_pca9532_setup example_board))) = [1]"
    by (simp add: new_events_def example_traces_empty example_pca9532_setup)
  have g3: "pci_gets (new_events board_without_lpc
      (snd (n5550_ich_gpio_setup board_without_lpc))) = []"
    by (simp add: new_events_def example_traces_empty without_lpc_gpio_setup_trace)
  note t1 = pci_dev_put_balances_get [OF disjI1 [OF refl] prod.collapse [symmetric] refl,
      of example_board]
  note t2 = pci_dev_put_balances_get [OF disjI2 [OF refl] prod.collapse [symmetric] refl,
      of example_board]
  note t3 = pci_dev_put_balances_get [OF disjI1 [OF refl] prod.collapse [symmetric] refl,
      of board_without_lpc]
  show ?thesis using t1 t2 t3 by (simp add: g1 g2 g3)
qed

section \<open>Lifecycle orchestrator\<close>

subsection \<open>What each step leaves alone\<close>

lemma pca9532_setup_ok_ptrs:
  assumes "n5550_pca9532_setup w = (0, w1)"
  shows "\<exists>d adapter c0 c1.
     pci_lookup N5550_ICH_PCI_VENDOR N5550_ICH_I2C_PCI_DEV (pci_devices w) = Some d \<and>
     pci_drvdata (pci_devices w ! d) = Some adapter \<and>
     i2c_probe w (adap_nr adapter) 0x64 = Some c0 \<and>
     i2c_probe w (adap_nr adapter) 0x62 = Some c1 \<and>
     n5550_pca9532_0_client w1 = Some c0 \<and> n5550_pca9532_1_client w1 = Some c1 \<and>
     led_pdev_registered w1 = led_pdev_registered w"
  using assms
  by (auto simp: n5550_pca9532_setup_def kernel_defs Let_def ENODEV_def EBUSY_def
       n5550_pca9532_0_info_def n5550_pca9532_1_info_def
      split: option.splits if_splits prod.splits)

lemma pca9532_setup_ok_clients:
  assumes "pci_lookup N5550_ICH_PCI_VENDOR N5550_ICH_I2C_PCI_DEV (pci_devices w) = Some d"
      and "pci_drvdata (pci_devices w ! d) = Some adapter"
      and "i2c_probe w (adap_nr adapter) 0x64 = Some c0"
      and "i2c_probe w (adap_nr adapter) 0x62 = Some c1"
      and "n5550_pca9532_setup w = (0, w1)"
  shows "i2c_clients w1 = (if IS_ERR_VALUE c1 then [] else [c1]) @
       (if IS_ERR_VALUE c0 then [] else [c0]) @ i2c_clients w"
  using assms
  by (auto simp: n5550_pca9532_setup_def kernel_defs Let_def ENODEV_def EBUSY_def
       n5550_pca9532_0_info_def n5550_pca9532_1_info_def
      split: option.splits if_splits prod.splits)

text \<open>After a bring-up that returned 0 both client variables hold a pointer that is not
  \<open>NULL\<close>, and the registered clients grew by those of the two that are clients.\<close>

lemma pca9532_setup_ok:
  assumes "n5550_pca9532_setup w = (0, w1)"
  shows "\<exists>d adapter c0 c1.
     pci_lookup N5550_ICH_PCI_VENDOR N5550_ICH_I2C_PCI_DEV (pci_devices w) = Some d \<and>
     pci_drvdata (pci_devices w ! d) = Some adapter \<and>
     i2c_probe w (adap_nr adapter) 0x64 = Some c0 \<and>
     i2c_probe w (adap_nr adapter) 0x62 = Some c1 \<and>
     n5550_pca9532_0_client w1 = Some c0 \<and> n5550_pca9532_1_client w1 = Some c1 \<and>
     i2c_clients w1 = (if IS_ERR_VALUE c1 then [] else [c1]) @
       (if IS_ERR_VALUE c0 then [] else [c0]) @ i2c_clients w \<and>
     led_pdev_registered w1 = led_pdev_registered w"
proof -
  from pca9532_setup_ok_ptrs [OF assms] obtain d adapter c0 c1 where
    p: "pci_lookup N5550_ICH_PCI_VENDOR N5550_ICH_I2C_PCI_DEV (pci_devices w) = Some d"
       "pci_drvdata (pci_devices w ! d) = Some adapter"
       "i2c_probe w (adap_nr adapter) 0x64 = Some c0"
       "i2c_probe w (adap_nr adapter) 0x62 = Some c1" and
    q: "n5550_pca9532_0_client w1 = Some c0" "n5550_pca9532_1_client w1 = Some c1"
       "led_pdev_registered w1 = led_pdev_registered w"
    by blast
  note r = pca9532_setup_ok_clients [OF p assms]
  from p q r show ?thesis by blast
qed

lemma gpio_setup_frame:
  assumes "n5550_ich_gpio_setup w = (r, w')"
  shows "i2c_clients w' = i2c_clients w \<and>
     n5550_pca9532_0_client w' = n5550_pca9532_0_client w \<and>
     n5550_pca9532_1_client w' = n5550_pca9532_1_client w \<and>
     led_pdev_registered w' = led_pdev_registered w"
  using assms
  by (auto simp: n5550_ich_gpio_setup_def kernel_defs Let_def
      split: option.splits if_splits prod.splits)

lemma led_setup_frame:
  assumes "n5550_ich_gpio_led_setup w = (r, w')"
  shows "i2c_clients w' = i2c_clients w \<and>
     n5550_pca9532_0_client w' = n5550_pca9532_0_client w \<and>
     n5550_pca9532_1_client w' = n5550_pca9532_1_client w"
  using assms
  by (auto simp: n5550_ich_gpio_led_setup_def kernel_defs Let_def
      split: option.splits if_splits prod.splits)

lemma pca9532_cleanup_effect:
  assumes "n5550_pca9532_0_client w = Some c0" and "n5550_pca9532_1_client w = Some c1"
      and "i2c_clients w = (if IS_ERR_VALUE c1 then [] else [c1]) @
             (if IS_ERR_VALUE c0 then [] else [c0]) @ cs"
  shows "trace (n5550_pca9532_cleanup w) = trace w @
           [I2c_unregister_device (Some c0), I2c_unregister_device (Some c1)] \<and>
         i2c_clients (n5550_pca9532_cleanup w) = cs"
proof -
  have t: "trace (n5550_pca9532_cleanup w) = trace w @
           [I2c_unregister_device (Some c0), I2c_unregister_device (Some c1)]"
    using assms(1,2) by (simp add: n5550_pca9532_cleanup_def kernel_defs Let_def)
  have c: "i2c_clients (n5550_pca9532_cleanup w) = cs"
  proof (cases "IS_ERR_VALUE c0")
    case e0: True
    show ?thesis
    proof (cases "IS_ERR_VALUE c1")
      case True
      with e0 assms show ?thesis by (simp add: n5550_pca9532_cleanup_def kernel_defs Let_def)
    next
      case False
      with e0 assms show ?thesis by (simp add: n5550_pca9532_cleanup_def kernel_defs Let_def)
    qed
  next
    case e0: False
    show ?thesis
    proof (cases "IS_ERR_VALUE c1")
      case True
      with e0 assms show ?thesis by (simp add: n5550_pca9532_cleanup_def kernel_defs Let_def)
    next
      case False
      with e0 assms show ?thesis
        by (cases "c0 = c1") (simp_all add: n5550_pca9532_cleanup_def kernel_defs Let_def)
    qed
  qed
  from t c show ?thesis by simp
qed

subsection \<open>Rollback on a failed bring-up\<close>

text \<open>
  Claim C2. If the satellite bring-up fails, \<open>n5550_board_init\<close> returns its error
  code and its state: nothing more runs. If the satellite bring-up succeeded and the
  GPIO fixup fails, or the fixup succeeded and the LED bring-up fails, the orchestrator
  returns the failing step's error code unchanged, after unregistering the two clients
  that the bring-up registered at 0x64 and 0x62: these are the last two events, and the
  registered clients are again those from before the bring-up.
\<close>

theorem board_init_rollback:
  assumes "n5550_pca9532_setup w = (r1, w1)"
      and "n5550_ich_gpio_setup w1 = (r2, w2)"
      and "n5550_ich_gpio_led_setup w2 = (r3, w3)"
  shows "(r1 \<noteq> 0 \<longrightarrow> n5550_board_init w = (r1, w1)) \<and>
         (r1 = 0 \<and> r2 \<noteq> 0 \<longrightarrow>
            (\<exists>d adapter c0 c1 w'. n5550_board_init w = (r2, w') \<and>
               pci_lookup N5550_ICH_PCI_VENDOR N5550_ICH_I2C_PCI_DEV (pci_devices w) = Some d \<and>
               pci_drvdata (pci_devices w ! d) = Some adapter \<and>
               i2c_probe w (adap_nr adapter) 0x64 = Some c0 \<and>
               i2c_probe w (adap_nr adapter) 0x62 = Some c1 \<and>
               trace w' = trace w2 @
                 [I2c_unregister_device (Some c0), I2c_unregister_device (Some c1)] \<and>
               i2c_clients w' = i2c_clients w)) \<and>
         (r1 = 0 \<and> r2 = 0 \<and> r3 \<noteq> 0 \<longrightarrow>
            (\<exists>d adapter c0 c1 w'. n5550_board_init w = (r3, w') \<and>
               pci_lookup N5550_ICH_PCI_VENDOR N5550_ICH_I2C_PCI_DEV (pci_devices w) = Some d \<and>
               pci_drvdata (pci_devices w ! d) = Some adapter \<and>
               i2c_probe w (adap_nr adapter) 0x64 = Some c0 \<and>
               i2c_probe w (adap_nr adapter) 0x62 = Some c1 \<and>
               trace w' = trace w3 @
                 [I2c_unregister_device (Some c0), I2c_unregister_device (Some c1)] \<and>
               i2c_clients w' = i2c_clients w))"
proof (intro conjI impI)
  assume "r1 \<noteq> 0"
  then show "n5550_board_init w = (r1, w1)"
    using assms(1) by (simp add: n5550_board_init_def)
next
  assume a: "r1 = 0 \<and> r2 \<noteq> 0"
  with assms(1) obtain d adapter c0 c1 where
    p: "pci_lookup N5550_ICH_PCI_VENDOR N5550_ICH_I2C_PCI_DEV (pci_devices w) = Some d"
       "pci_drvdata (pci_devices w ! d) = Some adapter"
       "i2c_probe w (adap_nr adapter) 0x64 = Some c0"
       "i2c_probe w (adap_nr adapter) 0x62 = Some c1" and
    c: "n5550_pca9532_0_client w1 = Some c0" "n5550_pca9532_1_client w1 = Some c1"
       "i2c_clients w1 = (if IS_ERR_VALUE c1 then [] else [c1]) @
          (if IS_ERR_VALUE c0 then [] else [c0]) @ i2c_clients w"
    using pca9532_setup_ok [of w w1] by blast
  have f: "n5550_pca9532_0_client w2 = Some c0" "n5550_pca9532_1_client w2 = Some c1"
       "i2c_clients w2 = (if IS_ERR_VALUE c1 then [] else [c1]) @
          (if IS_ERR_VALUE c0 then [] else [c0]) @ i2c_clients w"
    using gpio_setup_frame [OF assms(2)] c by simp_all
  have "n5550_board_init w = (r2, n5550_pca9532_cleanup w2)"
    using a assms(1,2) by (simp add: n5550_board_init_def)
  then show "\<exists>d adapter c0 c1 w'. n5550_board_init w = (r2, w') \<and>
               pci_lookup N5550_ICH_PCI_VENDOR N5550_ICH_I2C_PCI_DEV (pci_devices w) = Some d \<and>
               pci_drvdata (pci_devices w ! d) = Some adapter \<and>
               i2c_probe w (adap_nr adapter) 0x64 = Some c0 \<and>
               i2c_probe w (adap_nr adapter) 0x62 = Some c1 \<and>
               trace w' = trace w2 @
                 [I2c_unregister_device (Some c0), I2c_unregister_device (Some c1)] \<and>
               i2c_clients w' = i2c_clients w"
    using p pca9532_cleanup_effect [OF f] by blast
next
  assume a: "r1 = 0 \<and> r2 = 0 \<and> r3 \<noteq> 0"
  with assms(1) obtain d adapter c0 c1 where
    p: "pci_lookup N5550_ICH_PCI_VENDOR N5550_ICH_I2C_PCI_DEV (pci_devices w) = Some d"
       "pci_drvdata (pci_devices w ! d) = Some adapter"
       "i2c_probe w (adap_nr adapter) 0x64 = Some c0"
       "i2c_probe w (adap_nr adapter) 0x62 = Some c1" and
    c: "n5550_pca9532_0_client w1 = Some c0" "n5550_pca9532_1_client w1 = Some c1"
       "i2c_clients w1 = (if IS_ERR_VALUE c1 then [] else [c1]) @
          (if IS_ERR_VALUE c0 then [] else [c0]) @ i2c_clients w"
    using pca9532_setup_ok [of w w1] by blast
  have f: "n5550_pca9532_0_client w3 = Some c0" "n5550_pca9532_1_client w3 = Some c1"
       "i2c_clients w3 = (if IS_ERR_VALUE c1 then [] else [c1]) @
          (if IS_ERR_VALUE c0 then [] else [c0]) @ i2c_clients w"
    using gpio_setup_frame [OF assms(2)] led_setup_frame [OF assms(3)] c by simp_all
  have "n5550_board_init w = (r3, n5550_pca9532_cleanup w3)"
    using a assms by (simp add: n5550_board_init_def)
  then show "\<exists>d adapter c0 c1 w'. n5550_board_init w = (r3, w') \<and>
               pci_lookup N5550_ICH_PCI_VENDOR N5550_ICH_I2C_PCI_DEV (pci_devices w) = Some d \<and>
               pci_drvdata (pci_devices w ! d) = Some adapter \<and>
               i2c_probe w (adap_nr adapter) 0x64 = Some c0 \<and>
               i2c_probe w (adap_nr adapter) 0x62 = Some c1 \<and>
               trace w' = trace w3 @
                 [I2c_unregister_device (Some c0), I2c_unregister_device (Some c1)] \<and>
               i2c_clients w' = i2c_clients w"
    using p pca9532_cleanup_effect [OF f] by blast
qed

subsection \<open>Failing bring-ups on the example boards\<close>

lemma adapter_busy_steps:
  "sint (fst (n5550_pca9532_setup board_adapter_busy)) = - 16"
  by (simp add: board_defs kernel_defs example_defs const_defs Let_def)

lemma without_lpc_steps:
  "fst (n5550_pca9532_setup board_without_lpc) = 0 \<and>
   sint (fst (n5550_ich_gpio_setup (snd (n5550_pca9532_setup board_without_lpc)))) = - 19"
  by (simp add: board_defs kernel_defs example_defs const_defs Let_def)

lemma without_gpio_chip_steps:
  "fst (n5550_pca9532_setup board_without_gpio_chip) = 0 \<and>
   fst (n5550_ich_gpio_setup (snd (n5550_pca9532_setup board_without_gpio_chip))) = 0 \<and>
   sint (fst (n5550_ich_gpio_led_setup
     (snd (n5550_ich_gpio_setup (snd (n5550_pca9532_setup board_without_gpio_chip)))))) = - 19"
  by (simp add: board_defs kernel_defs example_defs const_defs Let_def config_dword_def)

lemma example_clients_empty:
  "i2c_clients example_board = []" "i2c_clients board_without_lpc = []"
  "i2c_clients board_without_gpio_chip = []"
  by (simp_all add: example_defs)

theorem board_init_rollback_witness:
  "fst (n5550_pca9532_setup board_adapter_busy) \<noteq> 0 \<and>
   n5550_board_init board_adapter_busy = n5550_pca9532_setup board_adapter_busy \<and>
   fst (n5550_pca9532_setup board_without_lpc) = 0 \<and>
   fst (n5550_ich_gpio_setup (snd (n5550_pca9532_setup board_without_lpc))) \<noteq> 0 \<and>
   fst (n5550_board_init board_without_lpc) =
     fst (n5550_ich_gpio_setup (snd (n5550_pca9532_setup board_without_lpc))) \<and>
   i2c_clients (snd (n5550_board_init board_without_lpc)) = [] \<and>
   fst (n5550_pca9532_setup board_without_gpio_chip) = 0 \<and>
   fst (n5550_ich_gpio_setup (snd (n5550_pca9532_setup board_without_gpio_chip))) = 0 \<and>
   fst (n5550_ich_gpio_led_setup
     (snd (n5550_ich_gpio_setup (snd (n5550_pca9532_setup board_without_gpio_chip))))) \<noteq> 0 \<and>
   fst (n5550_board_init board_without_gpio_chip) =
     fst (n5550_ich_gpio_led_setup
       (snd (n5550_ich_gpio_setup (snd (n5550_pca9532_setup board_without_gpio_chip))))) \<and>
   i2c_clients (snd (n5550_board_init board_without_gpio_chip)) = []"
proof -
  have a1: "fst (n5550_pca9532_setup board_adapter_busy) \<noteq> 0"
    using adapter_busy_steps by auto
  have b1: "fst (n5550_pca9532_setup board_without_lpc) = 0"
    and b2: "fst (n5550_ich_gpio_setup (snd (n5550_pca9532_setup board_without_lpc))) \<noteq> 0"
    using without_lpc_steps by auto
  have c1: "fst (n5550_pca9532_setup board_without_gpio_chip) = 0"
    and c2: "fst (n5550_ich_gpio_setup (snd (n5550_pca9532_setup board_without_gpio_chip))) = 0"
    and c3: "fst (n5550_ich_gpio_led_setup
     (snd (n5550_ich_gpio_setup (snd (n5550_pca9532_setup board_without_gpio_chip))))) \<noteq> 0"
    using without_gpio_chip_steps by auto
  note t = board_init_rollback [OF prod.collapse [symmetric] prod.collapse [symmetric]
      prod.collapse [symmetric]]
  from t [of board_adapter_busy] a1
  have A: "n5550_board_init board_adapter_busy = n5550_pca9532_setup board_adapter_busy"
    by simp
  from t [of board_without_lpc] b1 b2
  have B: "fst (n5550_board_init board_without_lpc) =
     fst (n5550_ich_gpio_setup (snd (n5550_pca9532_setup board_without_lpc))) \<and>
   i2c_clients (snd (n5550_board_init board_without_lpc)) = []"
    by (auto simp: example_clients_empty)
  from t [of board_without_gpio_chip] c1 c2 c3
  have C: "fst (n5550_board_init board_without_gpio_chip) =
     fst (n5550_ich_gpio_led_setup
       (snd (n5550_ich_gpio_setup (snd (n5550_pca9532_setup board_without_gpio_chip))))) \<and>
   i2c_clients (snd (n5550_board_init board_without_gpio_chip)) = []"
    by (auto simp: example_clients_empty)
  show ?thesis using a1 b1 b2 c1 c2 c3 A B C by simp
qed

subsection \<open>Tear-down\<close>

lemma led_setup_registered:
  assumes "n5550_ich_gpio_led_setup w = (0, w')"
  shows "led_pdev_registered w'"
  using assms
  by (auto simp: n5550_ich_gpio_led_setup_def kernel_defs Let_def split: if_splits)

lemma board_init_ok:
  assumes "n5550_board_init w = (0, w3)"
  shows "\<exists>w1 w2. n5550_pca9532_setup w = (0, w1) \<and> n5550_ich_gpio_setup w1 = (0, w2) \<and>
     n5550_ich_gpio_led_setup w2 = (0, w3)"
  using assms
  by (auto simp: n5550_board_init_def Let_def split: prod.splits if_splits)

lemma example_init_ret: "fst (n5550_board_init example_board) = 0"
  by (simp add: board_defs kernel_defs const_defs example_defs Let_def config_dword_def)

lemma example_init_clients:
  "n5550_pca9532_0_client (snd (n5550_board_init example_board)) = Some 10 \<and>
   n5550_pca9532_1_client (snd (n5550_board_init example_board)) = Some 11"
  by (simp add: board_defs kernel_defs const_defs example_defs Let_def config_dword_def)

lemma board_exit_trace:
  "trace (n5550_board_exit w) = trace w @
     [I2c_unregister_device (n5550_pca9532_0_client w),
      I2c_unregister_device (n5550_pca9532_1_client w),
      Platform_device_unregister]"
  by (simp add: n5550_board_exit_def n5550_pca9532_cleanup_def n5550_ich_gpio_led_cleanup_def
      kernel_defs Let_def split: option.splits)

text \<open>
  Claim C1 as stated asks for the LED platform device to be unregistered before the two
  satellite clients. On the example board, after a bring-up that returned 0, the
  tear-down unregisters client 10, then client 11, and the platform device last.
\<close>

theorem board_exit_led_first_counterexample:
  "fst (n5550_board_init example_board) = 0 \<and>
   new_events (snd (n5550_board_init example_board))
     (n5550_board_exit (snd (n5550_board_init example_board))) =
     [I2c_unregister_device (Some 10), I2c_unregister_device (Some 11),
      Platform_device_unregister] \<and>
   \<not> happens_before Platform_device_unregister (I2c_unregister_device (Some 10))
       (new_events (snd (n5550_board_init example_board))
          (n5550_board_exit (snd (n5550_board_init example_board)))) \<and>
   \<not> happens_before Platform_device_unregister (I2c_unregister_device (Some 11))
       (new_events (snd (n5550_board_init example_board))
          (n5550_board_exit (snd (n5550_board_init example_board))))"
proof -
  have e: "new_events (snd (n5550_board_init example_board))
     (n5550_board_exit (snd (n5550_board_init example_board))) =
     [I2c_unregister_device (Some 10), I2c_unregister_device (Some 11),
      Platform_device_unregister]"
    by (simp add: new_events_def board_exit_trace example_init_clients)
  show ?thesis
    unfolding e by (simp add: example_init_ret happens_before_def)
qed

text \<open>
  Claim C1, amended. \<open>n5550_board_exit\<close> always appends exactly three events: it
  unregisters the client held in \<open>n5550_pca9532_0_client\<close>, then the client held in
  \<open>n5550_pca9532_1_client\<close>, then the LED platform device; it has no branch and the
  cleanup calls return nothing. After a bring-up that returned 0 the two clients are those
  registered at 0x64 and 0x62, the platform device was registered, and after the
  tear-down the registered clients are those from before the bring-up and the platform
  device is no longer registered.
\<close>

theorem board_exit_satellites_first:
  "trace (n5550_board_exit w1) = trace w1 @
     [I2c_unregister_device (n5550_pca9532_0_client w1),
      I2c_unregister_device (n5550_pca9532_1_client w1),
      Platform_device_unregister] \<and>
   (\<forall>w. n5550_board_init w = (0, w1) \<longrightarrow>
      (\<exists>d adapter c0 c1.
         pci_lookup N5550_ICH_PCI_VENDOR N5550_ICH_I2C_PCI_DEV (pci_devices w) = Some d \<and>
         pci_drvdata (pci_devices w ! d) = Some adapter \<and>
         i2c_probe w (adap_nr adapter) 0x64 = Some c0 \<and>
         i2c_probe w (adap_nr adapter) 0x62 = Some c1 \<and>
         n5550_pca9532_0_client w1 = Some c0 \<and> n5550_pca9532_1_client w1 = Some c1 \<and>
         led_pdev_registered w1 \<and>
         new_events w1 (n5550_board_exit w1) =
           [I2c_unregister_device (Some c0), I2c_unregister_device (Some c1),
            Platform_device_unregister] \<and>
         i2c_clients (n5550_board_exit w1) = i2c_clients w \<and>
         \<not> led_pdev_registered (n5550_board_exit w1)))"
proof (intro conjI allI impI)
  show "trace (n5550_board_exit w1) = trace w1 @
     [I2c_unregister_device (n5550_pca9532_0_client w1),
      I2c_unregister_device (n5550_pca9532_1_client w1),
      Platform_device_unregister]"
    by (rule board_exit_trace)
next
  fix w assume "n5550_board_init w = (0, w1)"
  then obtain u1 u2 where s: "n5550_pca9532_setup w = (0, u1)"
      "n5550_ich_gpio_setup u1 = (0, u2)" "n5550_ich_gpio_led_setup u2 = (0, w1)"
    using board_init_ok by blast
  from s(1) obtain d adapter c0 c1 where
    p: "pci_lookup N5550_ICH_PCI_VENDOR N5550_ICH_I2C_PCI_DEV (pci_devices w) = Some d"
       "pci_drvdata (pci_devices w ! d) = Some adapter"
       "i2c_probe w (adap_nr adapter) 0x64 = Some c0"
       "i2c_probe w (adap_nr adapter) 0x62 = Some c1" and
    c: "n5550_pca9532_0_client u1 = Some c0" "n5550_pca9532_1_client u1 = Some c1"
       "i2c_clients u1 = (if IS_ERR_VALUE c1 then [] else [c1]) @
          (if IS_ERR_VALUE c0 then [] else [c0]) @ i2c_clients w"
    using pca9532_setup_ok [of w u1] by blast
  have f: "n5550_pca9532_0_client w1 = Some c0" "n5550_pca9532_1_client w1 = Some c1"
       "i2c_clients w1 = (if IS_ERR_VALUE c1 then [] else [c1]) @
          (if IS_ERR_VALUE c0 then [] else [c0]) @ i2c_clients w"
    using gpio_setup_frame [OF s(2)] led_setup_frame [OF s(3)] c by simp_all
  have reg: "led_pdev_registered w1" using s(3) by (rule led_setup_registered)
  have ev: "new_events w1 (n5550_board_exit w1) =
           [I2c_unregister_device (Some c0), I2c_unregister_device (Some c1),
            Platform_device_unregister]"
    by (simp add: new_events_def board_exit_trace f)
  have cl: "i2c_clients (n5550_board_exit w1) = i2c_clients w"
    using pca9532_cleanup_effect [OF f]
    by (simp add: n5550_board_exit_def n5550_ich_gpio_led_cleanup_def
        platform_device_unregister_def log_event_def Let_def)
  have un: "\<not> led_pdev_registered (n5550_board_exit w1)"
    by (simp add: n5550_board_exit_def n5550_ich_gpio_led_cleanup_def
        platform_device_unregister_def log_event_def Let_def)
  show "\<exists>d adapter c0 c1.
         pci_lookup N5550_ICH_PCI_VENDOR N5550_ICH_I2C_PCI_DEV (pci_devices w) = Some d \<and>
         pci_drvdata (pci_devices w ! d) = Some adapter \<and>
         i2c_probe w (adap_nr adapter) 0x64 = Some c0 \<and>
         i2c_probe w (adap_nr adapter) 0x62 = Some c1 \<and>
         n5550_pca9532_0_client w1 = Some c0 \<and> n5550_pca9532_1_client w1 = Some c1 \<and>
         led_pdev_registered w1 \<and>
         new_events w1 (n5550_board_exit w1) =
           [I2c_unregister_device (Some c0), I2c_unregister_device (Some c1),
            Platform_device_unregister] \<and>
         i2c_clients (n5550_board_exit w1) = i2c_clients w \<and>
         \<not> led_pdev_registered (n5550_board_exit w1)"
    using p f reg ev cl un by blast
qed

theorem board_exit_satellites_first_witness:
  "n5550_board_init example_board = (0, snd (n5550_board_init example_board)) \<and>
   new_events (snd (n5550_board_init example_board))
     (n5550_board_exit (snd (n5550_board_init example_board))) =
     [I2c_unregister_device (Some 10), I2c_unregister_device (Some 11),
      Platform_device_unregister] \<and>
   i2c_clients (n5550_board_exit (snd (n5550_board_init example_board))) = [] \<and>
   \<not> led_pdev_registered (n5550_board_exit (snd (n5550_board_init example_board)))"
proof -
  have h: "n5550_board_init example_board = (0, snd (n5550_board_init example_board))"
    using example_init_ret by (simp add: prod_eq_iff)
  from board_exit_satellites_first [of "snd (n5550_board_init example_board)"] h
  obtain c0 c1 where
    "n5550_pca9532_0_client (snd (n5550_board_init example_board)) = Some c0"
    "n5550_pca9532_1_client (snd (n5550_board_init example_board)) = Some c1"
    "new_events (snd (n5550_board_init example_board))
       (n5550_board_exit (snd (n5550_board_init example_board))) =
           [I2c_unregister_device (Some c0), I2c_unregister_device (Some c1),
            Platform_device_unregister]"
    "i2c_clients (n5550_board_exit (snd (n5550_board_init example_board))) =
       i2c_clients example_board"
    "\<not> led_pdev_registered (n5550_board_exit (snd (n5550_board_init example_board)))"
    by blast
  then show ?thesis
    using h example_init_clients by (simp add: example_clients_empty)
qed

end
